theory Spec2Isabelle
  imports Main "HOL-Library.AList"
begin

section \<open>Core types (types.ts)\<close>

text \<open>
  The string enums of the source are closed datatypes.  Several enums have a member
  called \<^verbatim>\<open>NONE\<close>; it carries the enum's name here.  JavaScript numbers are
  modelled as \<^typ>\<open>int\<close>: coordinates, river-edge indices and yields are integers
  wherever the core computes with them.
\<close>

datatype TerrainType = GRASS | PLAINS | DESERT | TUNDRA | SNOW | COAST | OCEAN

datatype TerrainModifier = FLAT | HILLS | MOUNTAIN

datatype FeatureType = FEATURE_NONE | WOODS | RAINFOREST | MARSH | FLOODPLAINS | OASIS
  | REEF | ICE | VOLCANO | GEOTHERMAL_FISSURE

datatype ResourceCategory = CATEGORY_NONE | BONUS | LUXURY | STRATEGIC

datatype ResourceType = RESOURCE_NONE
  | BANANAS | CATTLE | COPPER | CRABS | DEER | FISH | MAIZE | RICE | SHEEP | STONE | WHEAT
  | AMBER | CITRUS | COCOA | COFFEE | COTTON | DIAMONDS | DYES | FURS | GYPSUM | HONEY
  | INCENSE | IVORY | JADE | MARBLE | MERCURY | PEARLS | SALT | SILK | SILVER | SPICES
  | SUGAR | TEA | TOBACCO | TRUFFLES | WHALES | WINE
  | HORSES | IRON | NITER | COAL | OIL | ALUMINUM | URANIUM

datatype DistrictType = DISTRICT_NONE | CITY_CENTER | HOLY_SITE | CAMPUS | THEATER_SQUARE
  | COMMERCIAL_HUB | HARBOR | INDUSTRIAL_ZONE | ENTERTAINMENT_COMPLEX | WATER_PARK
  | AQUEDUCT | NEIGHBORHOOD | SPACEPORT | AERODROME | ENCAMPMENT | GOVERNMENT_PLAZA
  | DIPLOMATIC_QUARTER | PRESERVE | DAM | CANAL

datatype WonderType = WONDER_NONE
  | STONEHENGE | PYRAMIDS | HANGING_GARDENS | ORACLE | GREAT_BATH | TEMPLE_OF_ARTEMIS
  | ETEMENANKI
  | COLOSSEUM | COLOSSUS | GREAT_LIBRARY | GREAT_LIGHTHOUSE | JEBEL_BARKAL
  | MAHABODHI_TEMPLE | MAUSOLEUM_AT_HALICARNASSUS | PETRA | TERRACOTTA_ARMY | APADANA
  | STATUE_OF_ZEUS
  | ALHAMBRA | ANGKOR_WAT | CHICHEN_ITZA | HAGIA_SOPHIA | KILWA_KISIWANI | KOTOKU_IN
  | MEENAKSHI_TEMPLE | MONT_ST_MICHEL | UNIVERSIDAD_DE_SALAMANCA
  | FORBIDDEN_CITY | GREAT_ZIMBABWE | HUEY_TEOCALLI | POTALA_PALACE | ST_BASILS_CATHEDRAL
  | TAJ_MAHAL | TORRE_DE_BELEM | VENETIAN_ARSENAL
  | BIG_BEN | BOLSHOI_THEATRE | HERMITAGE | OXFORD_UNIVERSITY | RUHR_VALLEY
  | STATUE_OF_LIBERTY
  | BROADWAY | CRISTO_REDENTOR | EIFFEL_TOWER | GOLDEN_GATE_BRIDGE | PANAMA_CANAL
  | BIOSPHERE | ESTADIO_DO_MARACANA | SYDNEY_OPERA_HOUSE
  | AMUNDSEN_SCOTT_RESEARCH_STATION

datatype NaturalWonderType = NATURAL_WONDER_NONE
  | CLIFFS_OF_DOVER | CRATER_LAKE | DEAD_SEA | EVEREST | GALAPAGOS_ISLANDS
  | GREAT_BARRIER_REEF | KILIMANJARO | PANTANAL | PIOPIOTAHI | TORRES_DEL_PAINE
  | TSINGY_DE_BEMARAHA | YOSEMITE | ZHANGYE_DANXIA | BERMUDA_TRIANGLE | CHOCOLOTE_HILLS
  | DELICATE_ARCH | EYE_OF_THE_SAHARA | GIANTS_CAUSEWAY | GOBUSTAN | HA_LONG_BAY | IK_KIL
  | LAKE_RETBA | MATO_TIPILA | MATTERHORN | PAMUKKALE | RORAIMA | SAHARA_EL_BEYDA
  | UBSUNUR_HOLLOW | ULURU | VESUVIUS | VINLAND | WHITE_DESERT

datatype ImprovementType = IMPROVEMENT_NONE | FARM | MINE | QUARRY | LUMBER_MILL | PASTURE
  | PLANTATION | CAMP | FISHING_BOATS | OIL_WELL | OFFSHORE_OIL_RIG

record Yields =
  food :: int
  production :: int
  gold :: int
  science :: int
  culture :: int
  faith :: int

definition EMPTY_YIELDS :: Yields where
  "EMPTY_YIELDS = \<lparr>food = 0, production = 0, gold = 0, science = 0, culture = 0, faith = 0\<rparr>"

text \<open>\<^verbatim>\<open>keyof Yields\<close>: the name of one of the six yield fields.\<close>

datatype YieldKey = Food | Production | Gold | Science | Culture | Faith

fun yield_get :: "Yields \<Rightarrow> YieldKey \<Rightarrow> int" where
  "yield_get y Food = food y"
| "yield_get y Production = production y"
| "yield_get y Gold = gold y"
| "yield_get y Science = science y"
| "yield_get y Culture = culture y"
| "yield_get y Faith = faith y"

text \<open>\<^verbatim>\<open>y[k] += n\<close>\<close>

fun yield_add :: "Yields \<Rightarrow> YieldKey \<Rightarrow> int \<Rightarrow> Yields" where
  "yield_add y Food n = y\<lparr>food := food y + n\<rparr>"
| "yield_add y Production n = y\<lparr>production := production y + n\<rparr>"
| "yield_add y Gold n = y\<lparr>gold := gold y + n\<rparr>"
| "yield_add y Science n = y\<lparr>science := science y + n\<rparr>"
| "yield_add y Culture n = y\<lparr>culture := culture y + n\<rparr>"
| "yield_add y Faith n = y\<lparr>faith := faith y + n\<rparr>"

type_synonym HexCoord = "int \<times> int"

record AdjacencyBonus =
  districtType :: DistrictType
  yieldType :: YieldKey
  amount :: int
  source :: string

text \<open>The string values of the two enums that the error text of \<^verbatim>\<open>setFeature\<close> prints.\<close>

fun TerrainType_value :: "TerrainType \<Rightarrow> string" where
  "TerrainType_value GRASS = ''grass''"
| "TerrainType_value PLAINS = ''plains''"
| "TerrainType_value DESERT = ''desert''"
| "TerrainType_value TUNDRA = ''tundra''"
| "TerrainType_value SNOW = ''snow''"
| "TerrainType_value COAST = ''coast''"
| "TerrainType_value OCEAN = ''ocean''"

fun FeatureType_value :: "FeatureType \<Rightarrow> string" where
  "FeatureType_value FEATURE_NONE = ''none''"
| "FeatureType_value WOODS = ''forest''"
| "FeatureType_value RAINFOREST = ''jungle''"
| "FeatureType_value MARSH = ''marsh''"
| "FeatureType_value FLOODPLAINS = ''floodplains''"
| "FeatureType_value OASIS = ''oasis''"
| "FeatureType_value REEF = ''reef''"
| "FeatureType_value ICE = ''ice''"
| "FeatureType_value VOLCANO = ''volcano''"
| "FeatureType_value GEOTHERMAL_FISSURE = ''geothermal_fissure''"

section \<open>Static rule tables (gameData.ts)\<close>

text \<open>
  Of each table entry the model keeps the fields that the core reads; display names,
  descriptions, movement costs and appeal modifiers are left out.
\<close>

fun TERRAIN_DATA_yields :: "TerrainType \<Rightarrow> Yields" where
  "TERRAIN_DATA_yields GRASS = EMPTY_YIELDS\<lparr>food := 2\<rparr>"
| "TERRAIN_DATA_yields PLAINS = EMPTY_YIELDS\<lparr>food := 1, production := 1\<rparr>"
| "TERRAIN_DATA_yields DESERT = EMPTY_YIELDS"
| "TERRAIN_DATA_yields TUNDRA = EMPTY_YIELDS\<lparr>food := 1\<rparr>"
| "TERRAIN_DATA_yields SNOW = EMPTY_YIELDS"
| "TERRAIN_DATA_yields COAST = EMPTY_YIELDS\<lparr>food := 1, gold := 1\<rparr>"
| "TERRAIN_DATA_yields OCEAN = EMPTY_YIELDS\<lparr>food := 1\<rparr>"

fun FEATURE_DATA_yields :: "FeatureType \<Rightarrow> Yields" where
  "FEATURE_DATA_yields FEATURE_NONE = EMPTY_YIELDS"
| "FEATURE_DATA_yields WOODS = EMPTY_YIELDS\<lparr>production := 1\<rparr>"
| "FEATURE_DATA_yields RAINFOREST = EMPTY_YIELDS\<lparr>food := 1\<rparr>"
| "FEATURE_DATA_yields MARSH = EMPTY_YIELDS\<lparr>food := 1\<rparr>"
| "FEATURE_DATA_yields FLOODPLAINS = EMPTY_YIELDS\<lparr>food := 3\<rparr>"
| "FEATURE_DATA_yields OASIS = EMPTY_YIELDS\<lparr>food := 3, gold := 1\<rparr>"
| "FEATURE_DATA_yields REEF = EMPTY_YIELDS\<lparr>food := 1, production := 1\<rparr>"
| "FEATURE_DATA_yields ICE = EMPTY_YIELDS"
| "FEATURE_DATA_yields VOLCANO = EMPTY_YIELDS"
| "FEATURE_DATA_yields GEOTHERMAL_FISSURE = EMPTY_YIELDS\<lparr>science := 1\<rparr>"

fun FEATURE_DATA_validTerrains :: "FeatureType \<Rightarrow> TerrainType list" where
  "FEATURE_DATA_validTerrains FEATURE_NONE = []"
| "FEATURE_DATA_validTerrains WOODS = [GRASS, PLAINS, TUNDRA]"
| "FEATURE_DATA_validTerrains RAINFOREST = [PLAINS]"
| "FEATURE_DATA_validTerrains MARSH = [GRASS]"
| "FEATURE_DATA_validTerrains FLOODPLAINS = [DESERT, GRASS, PLAINS]"
| "FEATURE_DATA_validTerrains OASIS = [DESERT]"
| "FEATURE_DATA_validTerrains REEF = [COAST]"
| "FEATURE_DATA_validTerrains ICE = [COAST, OCEAN]"
| "FEATURE_DATA_validTerrains VOLCANO = [GRASS, PLAINS, DESERT, TUNDRA, SNOW]"
| "FEATURE_DATA_validTerrains GEOTHERMAL_FISSURE = [GRASS, PLAINS, DESERT, TUNDRA, SNOW]"

fun RESOURCE_DATA_category :: "ResourceType \<Rightarrow> ResourceCategory" where
  "RESOURCE_DATA_category RESOURCE_NONE = CATEGORY_NONE"
| "RESOURCE_DATA_category BANANAS = BONUS"
| "RESOURCE_DATA_category CATTLE = BONUS"
| "RESOURCE_DATA_category COPPER = BONUS"
| "RESOURCE_DATA_category CRABS = BONUS"
| "RESOURCE_DATA_category DEER = BONUS"
| "RESOURCE_DATA_category FISH = BONUS"
| "RESOURCE_DATA_category MAIZE = BONUS"
| "RESOURCE_DATA_category RICE = BONUS"
| "RESOURCE_DATA_category SHEEP = BONUS"
| "RESOURCE_DATA_category STONE = BONUS"
| "RESOURCE_DATA_category WHEAT = BONUS"
| "RESOURCE_DATA_category AMBER = LUXURY"
| "RESOURCE_DATA_category CITRUS = LUXURY"
| "RESOURCE_DATA_category COCOA = LUXURY"
| "RESOURCE_DATA_category COFFEE = LUXURY"
| "RESOURCE_DATA_category COTTON = LUXURY"
| "RESOURCE_DATA_category DIAMONDS = LUXURY"
| "RESOURCE_DATA_category DYES = LUXURY"
| "RESOURCE_DATA_category FURS = LUXURY"
| "RESOURCE_DATA_category GYPSUM = LUXURY"
| "RESOURCE_DATA_category HONEY = LUXURY"
| "RESOURCE_DATA_category INCENSE = LUXURY"
| "RESOURCE_DATA_category IVORY = LUXURY"
| "RESOURCE_DATA_category JADE = LUXURY"
| "RESOURCE_DATA_category MARBLE = LUXURY"
| "RESOURCE_DATA_category MERCURY = LUXURY"
| "RESOURCE_DATA_category PEARLS = LUXURY"
| "RESOURCE_DATA_category SALT = LUXURY"
| "RESOURCE_DATA_category SILK = LUXURY"
| "RESOURCE_DATA_category SILVER = LUXURY"
| "RESOURCE_DATA_category SPICES = LUXURY"
| "RESOURCE_DATA_category SUGAR = LUXURY"
| "RESOURCE_DATA_category TEA = LUXURY"
| "RESOURCE_DATA_category TOBACCO = LUXURY"
| "RESOURCE_DATA_category TRUFFLES = LUXURY"
| "RESOURCE_DATA_category WHALES = LUXURY"
| "RESOURCE_DATA_category WINE = LUXURY"
| "RESOURCE_DATA_category HORSES = STRATEGIC"
| "RESOURCE_DATA_category IRON = STRATEGIC"
| "RESOURCE_DATA_category NITER = STRATEGIC"
| "RESOURCE_DATA_category COAL = STRATEGIC"
| "RESOURCE_DATA_category OIL = STRATEGIC"
| "RESOURCE_DATA_category ALUMINUM = STRATEGIC"
| "RESOURCE_DATA_category URANIUM = STRATEGIC"

fun RESOURCE_DATA_yields :: "ResourceType \<Rightarrow> Yields" where
  "RESOURCE_DATA_yields RESOURCE_NONE = EMPTY_YIELDS"
| "RESOURCE_DATA_yields BANANAS = EMPTY_YIELDS\<lparr>food := 1\<rparr>"
| "RESOURCE_DATA_yields CATTLE = EMPTY_YIELDS\<lparr>food := 1\<rparr>"
| "RESOURCE_DATA_yields COPPER = EMPTY_YIELDS\<lparr>gold := 2\<rparr>"
| "RESOURCE_DATA_yields CRABS = EMPTY_YIELDS\<lparr>gold := 2\<rparr>"
| "RESOURCE_DATA_yields DEER = EMPTY_YIELDS\<lparr>production := 1\<rparr>"
| "RESOURCE_DATA_yields FISH = EMPTY_YIELDS\<lparr>food := 1\<rparr>"
| "RESOURCE_DATA_yields MAIZE = EMPTY_YIELDS\<lparr>gold := 2\<rparr>"
| "RESOURCE_DATA_yields RICE = EMPTY_YIELDS\<lparr>food := 1\<rparr>"
| "RESOURCE_DATA_yields SHEEP = EMPTY_YIELDS\<lparr>food := 1\<rparr>"
| "RESOURCE_DATA_yields STONE = EMPTY_YIELDS\<lparr>production := 1\<rparr>"
| "RESOURCE_DATA_yields WHEAT = EMPTY_YIELDS\<lparr>food := 1\<rparr>"
| "RESOURCE_DATA_yields AMBER = EMPTY_YIELDS\<lparr>gold := 3\<rparr>"
| "RESOURCE_DATA_yields CITRUS = EMPTY_YIELDS\<lparr>food := 2\<rparr>"
| "RESOURCE_DATA_yields COCOA = EMPTY_YIELDS\<lparr>gold := 3\<rparr>"
| "RESOURCE_DATA_yields COFFEE = EMPTY_YIELDS\<lparr>culture := 1\<rparr>"
| "RESOURCE_DATA_yields COTTON = EMPTY_YIELDS\<lparr>gold := 3\<rparr>"
| "RESOURCE_DATA_yields DIAMONDS = EMPTY_YIELDS\<lparr>gold := 3\<rparr>"
| "RESOURCE_DATA_yields DYES = EMPTY_YIELDS\<lparr>faith := 1\<rparr>"
| "RESOURCE_DATA_yields FURS = EMPTY_YIELDS\<lparr>food := 1, gold := 1\<rparr>"
| "RESOURCE_DATA_yields GYPSUM = EMPTY_YIELDS\<lparr>production := 1, gold := 1\<rparr>"
| "RESOURCE_DATA_yields HONEY = EMPTY_YIELDS\<lparr>food := 2\<rparr>"
| "RESOURCE_DATA_yields INCENSE = EMPTY_YIELDS\<lparr>faith := 1\<rparr>"
| "RESOURCE_DATA_yields IVORY = EMPTY_YIELDS\<lparr>production := 1, gold := 1\<rparr>"
| "RESOURCE_DATA_yields JADE = EMPTY_YIELDS\<lparr>culture := 1\<rparr>"
| "RESOURCE_DATA_yields MARBLE = EMPTY_YIELDS\<lparr>culture := 1\<rparr>"
| "RESOURCE_DATA_yields MERCURY = EMPTY_YIELDS\<lparr>science := 1\<rparr>"
| "RESOURCE_DATA_yields PEARLS = EMPTY_YIELDS\<lparr>faith := 1\<rparr>"
| "RESOURCE_DATA_yields SALT = EMPTY_YIELDS\<lparr>food := 1, gold := 1\<rparr>"
| "RESOURCE_DATA_yields SILK = EMPTY_YIELDS\<lparr>culture := 1\<rparr>"
| "RESOURCE_DATA_yields SILVER = EMPTY_YIELDS\<lparr>gold := 3\<rparr>"
| "RESOURCE_DATA_yields SPICES = EMPTY_YIELDS\<lparr>food := 2\<rparr>"
| "RESOURCE_DATA_yields SUGAR = EMPTY_YIELDS\<lparr>food := 2\<rparr>"
| "RESOURCE_DATA_yields TEA = EMPTY_YIELDS\<lparr>culture := 1\<rparr>"
| "RESOURCE_DATA_yields TOBACCO = EMPTY_YIELDS\<lparr>faith := 1\<rparr>"
| "RESOURCE_DATA_yields TRUFFLES = EMPTY_YIELDS\<lparr>gold := 3\<rparr>"
| "RESOURCE_DATA_yields WHALES = EMPTY_YIELDS\<lparr>gold := 1, production := 1\<rparr>"
| "RESOURCE_DATA_yields WINE = EMPTY_YIELDS\<lparr>food := 1, gold := 1\<rparr>"
| "RESOURCE_DATA_yields HORSES = EMPTY_YIELDS\<lparr>food := 1, production := 1\<rparr>"
| "RESOURCE_DATA_yields IRON = EMPTY_YIELDS\<lparr>science := 1\<rparr>"
| "RESOURCE_DATA_yields NITER = EMPTY_YIELDS\<lparr>food := 1, production := 1\<rparr>"
| "RESOURCE_DATA_yields COAL = EMPTY_YIELDS\<lparr>production := 2\<rparr>"
| "RESOURCE_DATA_yields OIL = EMPTY_YIELDS\<lparr>production := 3\<rparr>"
| "RESOURCE_DATA_yields ALUMINUM = EMPTY_YIELDS\<lparr>science := 1\<rparr>"
| "RESOURCE_DATA_yields URANIUM = EMPTY_YIELDS\<lparr>production := 2\<rparr>"

record DistrictInfo =
  primaryYieldType :: "YieldKey option"
  requiresCoast :: bool
  requiresLand :: bool
  canBuildOnHills :: bool
  isSpecialty :: bool

fun DISTRICT_DATA :: "DistrictType \<Rightarrow> DistrictInfo" where
  "DISTRICT_DATA DISTRICT_NONE = \<lparr>primaryYieldType = None, requiresCoast = False,
     requiresLand = False, canBuildOnHills = True, isSpecialty = False\<rparr>"
| "DISTRICT_DATA CITY_CENTER = \<lparr>primaryYieldType = None, requiresCoast = False,
     requiresLand = True, canBuildOnHills = True, isSpecialty = False\<rparr>"
| "DISTRICT_DATA HOLY_SITE = \<lparr>primaryYieldType = Some Faith, requiresCoast = False,
     requiresLand = True, canBuildOnHills = True, isSpecialty = True\<rparr>"
| "DISTRICT_DATA CAMPUS = \<lparr>primaryYieldType = Some Science, requiresCoast = False,
     requiresLand = True, canBuildOnHills = True, isSpecialty = True\<rparr>"
| "DISTRICT_DATA THEATER_SQUARE = \<lparr>primaryYieldType = Some Culture, requiresCoast = False,
     requiresLand = True, canBuildOnHills = True, isSpecialty = True\<rparr>"
| "DISTRICT_DATA COMMERCIAL_HUB = \<lparr>primaryYieldType = Some Gold, requiresCoast = False,
     requiresLand = True, canBuildOnHills = True, isSpecialty = True\<rparr>"
| "DISTRICT_DATA HARBOR = \<lparr>primaryYieldType = Some Gold, requiresCoast = True,
     requiresLand = False, canBuildOnHills = False, isSpecialty = True\<rparr>"
| "DISTRICT_DATA INDUSTRIAL_ZONE = \<lparr>primaryYieldType = Some Production,
     requiresCoast = False, requiresLand = True, canBuildOnHills = True, isSpecialty = True\<rparr>"
| "DISTRICT_DATA ENTERTAINMENT_COMPLEX = \<lparr>primaryYieldType = None, requiresCoast = False,
     requiresLand = True, canBuildOnHills = True, isSpecialty = True\<rparr>"
| "DISTRICT_DATA WATER_PARK = \<lparr>primaryYieldType = None, requiresCoast = True,
     requiresLand = False, canBuildOnHills = False, isSpecialty = True\<rparr>"
| "DISTRICT_DATA AQUEDUCT = \<lparr>primaryYieldType = None, requiresCoast = False,
     requiresLand = True, canBuildOnHills = False, isSpecialty = False\<rparr>"
| "DISTRICT_DATA NEIGHBORHOOD = \<lparr>primaryYieldType = None, requiresCoast = False,
     requiresLand = True, canBuildOnHills = True, isSpecialty = False\<rparr>"
| "DISTRICT_DATA SPACEPORT = \<lparr>primaryYieldType = None, requiresCoast = False,
     requiresLand = True, canBuildOnHills = False, isSpecialty = True\<rparr>"
| "DISTRICT_DATA AERODROME = \<lparr>primaryYieldType = None, requiresCoast = False,
     requiresLand = True, canBuildOnHills = False, isSpecialty = True\<rparr>"
| "DISTRICT_DATA ENCAMPMENT = \<lparr>primaryYieldType = None, requiresCoast = False,
     requiresLand = True, canBuildOnHills = True, isSpecialty = True\<rparr>"
| "DISTRICT_DATA GOVERNMENT_PLAZA = \<lparr>primaryYieldType = None, requiresCoast = False,
     requiresLand = True, canBuildOnHills = True, isSpecialty = True\<rparr>"
| "DISTRICT_DATA DIPLOMATIC_QUARTER = \<lparr>primaryYieldType = None, requiresCoast = False,
     requiresLand = True, canBuildOnHills = True, isSpecialty = True\<rparr>"
| "DISTRICT_DATA PRESERVE = \<lparr>primaryYieldType = None, requiresCoast = False,
     requiresLand = True, canBuildOnHills = True, isSpecialty = True\<rparr>"
| "DISTRICT_DATA DAM = \<lparr>primaryYieldType = None, requiresCoast = False,
     requiresLand = True, canBuildOnHills = False, isSpecialty = False\<rparr>"
| "DISTRICT_DATA CANAL = \<lparr>primaryYieldType = Some Gold, requiresCoast = False,
     requiresLand = True, canBuildOnHills = False, isSpecialty = False\<rparr>"

section \<open>Cell (Tile.ts)\<close>

text \<open>
  A \<^verbatim>\<open>Tile\<close> object is the record of its private fields.  The record is polymorphic in
  the representation \<open>'e\<close> of the river-edge \<^verbatim>\<open>Set\<close>: in the value model of this and the
  next sections the Set is held by value, as the list of its members in insertion order
  (a JavaScript Set iterates in insertion order and holds no member twice); in the store
  model of the last section it is the address of a Set object.
\<close>

record 'e Tile =
  coord :: HexCoord
  terrain :: TerrainType
  modifier :: TerrainModifier
  feature :: FeatureType
  resource :: ResourceType
  district :: DistrictType
  wonder :: WonderType
  naturalWonder :: NaturalWonderType
  improvement :: ImprovementType
  riverEdges :: 'e
  ownerCityId :: "string option"
  isCityCenter :: bool

subsection \<open>The Set of river edges, by value\<close>

definition Set_add :: "int list \<Rightarrow> int \<Rightarrow> int list" where
  "Set_add s x = (if x \<in> set s then s else s @ [x])"

definition Set_delete :: "int list \<Rightarrow> int \<Rightarrow> int list" where
  "Set_delete s x = removeAll x s"

text \<open>\<^verbatim>\<open>new Set(iterable)\<close> adds the members one by one to an empty Set.\<close>

definition Set_new :: "int list \<Rightarrow> int list" where
  "Set_new xs = fold (\<lambda>x s. Set_add s x) xs []"

text \<open>\<^verbatim>\<open>new Tile(coord)\<close>, with the field initialisers of the class.\<close>

definition new_Tile :: "HexCoord \<Rightarrow> 'e \<Rightarrow> 'e Tile" where
  "new_Tile c es = \<lparr>coord = c, terrain = GRASS, modifier = FLAT, feature = FEATURE_NONE,
     resource = RESOURCE_NONE, district = DISTRICT_NONE, wonder = WONDER_NONE,
     naturalWonder = NATURAL_WONDER_NONE, improvement = IMPROVEMENT_NONE,
     riverEdges = es, ownerCityId = None, isCityCenter = False\<rparr>"

definition newTile :: "HexCoord \<Rightarrow> int list Tile" where
  "newTile c = new_Tile c []"

subsection \<open>Setters with validation\<close>

text \<open>
  A setter mutates \<^verbatim>\<open>this\<close> and returns it, or throws an \<^verbatim>\<open>Error\<close>.  Its model returns
  the thrown error, if any, together with the state of the object after the call, so that
  a setter which had assigned a field before throwing would show it.
\<close>

datatype error = Error string

definition setTerrain ::
  "'e Tile \<Rightarrow> TerrainType \<Rightarrow> TerrainModifier \<Rightarrow> error option \<times> 'e Tile" where
  "setTerrain t terrain' modifier' =
     (if modifier' = MOUNTAIN \<and> (terrain' = COAST \<or> terrain' = OCEAN)
      then (Some (Error ''Mountains cannot be placed on water tiles''), t)
      else if modifier' = HILLS \<and> (terrain' = COAST \<or> terrain' = OCEAN)
      then (Some (Error ''Hills cannot be placed on water tiles''), t)
      else (None, t\<lparr>terrain := terrain', modifier := modifier'\<rparr>))"

definition setFeature :: "'e Tile \<Rightarrow> FeatureType \<Rightarrow> error option \<times> 'e Tile" where
  "setFeature t feature' =
     (if feature' \<noteq> FEATURE_NONE \<and> terrain t \<notin> set (FEATURE_DATA_validTerrains feature')
      then (Some (Error (FeatureType_value feature' @ '' cannot be placed on ''
                           @ TerrainType_value (terrain t))), t)
      else (None, t\<lparr>feature := feature'\<rparr>))"

definition setResource :: "'e Tile \<Rightarrow> ResourceType \<Rightarrow> error option \<times> 'e Tile" where
  "setResource t resource' = (None, t\<lparr>resource := resource'\<rparr>)"

definition setDistrict :: "'e Tile \<Rightarrow> DistrictType \<Rightarrow> error option \<times> 'e Tile" where
  "setDistrict t district' =
     (if modifier t = MOUNTAIN \<and> district' \<noteq> DISTRICT_NONE
      then (Some (Error ''Districts cannot be placed on mountains''), t)
      else if (terrain t = COAST \<or> terrain t = OCEAN) \<and> district' \<noteq> DISTRICT_NONE
              \<and> district' \<noteq> HARBOR \<and> district' \<noteq> WATER_PARK
      then (Some (Error ''Only Harbor and Water Park can be placed on water''), t)
      else let t1 = t\<lparr>district := district'\<rparr>
           in (None, if district' \<noteq> DISTRICT_NONE
                     then t1\<lparr>improvement := IMPROVEMENT_NONE, feature := FEATURE_NONE\<rparr>
                     else t1))"

definition setWonder :: "'e Tile \<Rightarrow> WonderType \<Rightarrow> error option \<times> 'e Tile" where
  "setWonder t wonder' =
     (let t1 = t\<lparr>wonder := wonder'\<rparr>
      in (None, if wonder' \<noteq> WONDER_NONE then t1\<lparr>improvement := IMPROVEMENT_NONE\<rparr> else t1))"

definition setNaturalWonder ::
  "'e Tile \<Rightarrow> NaturalWonderType \<Rightarrow> error option \<times> 'e Tile" where
  "setNaturalWonder t naturalWonder' = (None, t\<lparr>naturalWonder := naturalWonder'\<rparr>)"

definition setImprovement :: "'e Tile \<Rightarrow> ImprovementType \<Rightarrow> error option \<times> 'e Tile" where
  "setImprovement t improvement' =
     (if district t \<noteq> DISTRICT_NONE \<or> wonder t \<noteq> WONDER_NONE
      then (Some (Error ''Cannot place improvements on districts or wonders''), t)
      else (None, t\<lparr>improvement := improvement'\<rparr>))"

definition addRiverEdge :: "int list Tile \<Rightarrow> int \<Rightarrow> error option \<times> int list Tile" where
  "addRiverEdge t edge =
     (if edge < 0 \<or> edge > 5
      then (Some (Error ''River edge must be between 0 and 5''), t)
      else (None, t\<lparr>riverEdges := Set_add (riverEdges t) edge\<rparr>))"

definition removeRiverEdge :: "int list Tile \<Rightarrow> int \<Rightarrow> error option \<times> int list Tile" where
  "removeRiverEdge t edge = (None, t\<lparr>riverEdges := Set_delete (riverEdges t) edge\<rparr>)"

definition setOwner :: "'e Tile \<Rightarrow> string option \<Rightarrow> bool \<Rightarrow> error option \<times> 'e Tile" where
  "setOwner t cityId isCityCenter' =
     (let t1 = t\<lparr>ownerCityId := cityId, isCityCenter := isCityCenter'\<rparr>
      in (None, if isCityCenter' then t1\<lparr>district := CITY_CENTER\<rparr> else t1))"

subsection \<open>Computed properties\<close>

definition isWater :: "'e Tile \<Rightarrow> bool" where
  "isWater t = (terrain t = COAST \<or> terrain t = OCEAN)"

definition isLand :: "'e Tile \<Rightarrow> bool" where
  "isLand t = (\<not> isWater t)"

definition isPassable :: "'e Tile \<Rightarrow> bool" where
  "isPassable t = (modifier t \<noteq> MOUNTAIN \<and> naturalWonder t = NATURAL_WONDER_NONE)"

definition hasRiver :: "int list Tile \<Rightarrow> bool" where
  "hasRiver t = (length (riverEdges t) > 0)"

definition isHill :: "'e Tile \<Rightarrow> bool" where
  "isHill t = (modifier t = HILLS)"

definition isMountain :: "'e Tile \<Rightarrow> bool" where
  "isMountain t = (modifier t = MOUNTAIN)"

definition hasDistrict :: "'e Tile \<Rightarrow> bool" where
  "hasDistrict t = (district t \<noteq> DISTRICT_NONE)"

definition hasWonder :: "'e Tile \<Rightarrow> bool" where
  "hasWonder t = (wonder t \<noteq> WONDER_NONE)"

definition hasNaturalWonder :: "'e Tile \<Rightarrow> bool" where
  "hasNaturalWonder t = (naturalWonder t \<noteq> NATURAL_WONDER_NONE)"

definition resourceCategory :: "'e Tile \<Rightarrow> ResourceCategory" where
  "resourceCategory t =
     (if resource t = RESOURCE_NONE then CATEGORY_NONE else RESOURCE_DATA_category (resource t))"

text \<open>
  \<^verbatim>\<open>baseYields\<close> copies \<^verbatim>\<open>EMPTY_YIELDS\<close> and adds, from the terrain, the feature and the
  resource, the three fields \<^verbatim>\<open>food\<close>, \<^verbatim>\<open>production\<close> and \<^verbatim>\<open>gold\<close>; these are the only
  additions the getter contains.
\<close>

definition baseYields :: "'e Tile \<Rightarrow> Yields" where
  "baseYields t =
     (let yields = EMPTY_YIELDS;
          terrainData = TERRAIN_DATA_yields (terrain t);
          yields = yields\<lparr>food := food yields + food terrainData\<rparr>;
          yields = yields\<lparr>production := production yields + production terrainData\<rparr>;
          yields = yields\<lparr>gold := gold yields + gold terrainData\<rparr>;
          yields = (if modifier t = HILLS
                    then yields\<lparr>production := production yields + 1\<rparr> else yields);
          featureData = FEATURE_DATA_yields (feature t);
          yields = yields\<lparr>food := food yields + food featureData\<rparr>;
          yields = yields\<lparr>production := production yields + production featureData\<rparr>;
          yields = yields\<lparr>gold := gold yields + gold featureData\<rparr>;
          resourceData = RESOURCE_DATA_yields (resource t);
          yields = yields\<lparr>food := food yields + food resourceData\<rparr>;
          yields = yields\<lparr>production := production yields + production resourceData\<rparr>;
          yields = yields\<lparr>gold := gold yields + gold resourceData\<rparr>
      in yields)"

subsection \<open>Serialization of a cell\<close>

text \<open>\<^verbatim>\<open>TileData\<close>: the same fields, the river edges as an array.\<close>

record TileData =
  td_coord :: HexCoord
  td_terrain :: TerrainType
  td_modifier :: TerrainModifier
  td_feature :: FeatureType
  td_resource :: ResourceType
  td_district :: DistrictType
  td_wonder :: WonderType
  td_naturalWonder :: NaturalWonderType
  td_improvement :: ImprovementType
  td_riverEdges :: "int list"
  td_ownerCityId :: "string option"
  td_isCityCenter :: bool

definition Tile_toJSON :: "int list Tile \<Rightarrow> TileData" where
  "Tile_toJSON t = \<lparr>td_coord = coord t, td_terrain = terrain t, td_modifier = modifier t,
     td_feature = feature t, td_resource = resource t, td_district = district t,
     td_wonder = wonder t, td_naturalWonder = naturalWonder t,
     td_improvement = improvement t, td_riverEdges = riverEdges t,
     td_ownerCityId = ownerCityId t, td_isCityCenter = isCityCenter t\<rparr>"

definition Tile_fromJSON :: "TileData \<Rightarrow> int list Tile" where
  "Tile_fromJSON d = (newTile (td_coord d))\<lparr>terrain := td_terrain d,
     modifier := td_modifier d, feature := td_feature d, resource := td_resource d,
     district := td_district d, wonder := td_wonder d,
     naturalWonder := td_naturalWonder d, improvement := td_improvement d,
     riverEdges := Set_new (td_riverEdges d), ownerCityId := td_ownerCityId d,
     isCityCenter := td_isCityCenter d\<rparr>"

text \<open>The claim's reading of \<^verbatim>\<open>baseYields\<close>: all four sources, over all six fields.\<close>

definition Yields_plus :: "Yields \<Rightarrow> Yields \<Rightarrow> Yields" where
  "Yields_plus a b = \<lparr>food = food a + food b, production = production a + production b,
     gold = gold a + gold b, science = science a + science b,
     culture = culture a + culture b, faith = faith a + faith b\<rparr>"

definition baseYields_spec :: "'e Tile \<Rightarrow> Yields" where
  "baseYields_spec t =
     Yields_plus (Yields_plus (Yields_plus (Yields_plus EMPTY_YIELDS
         (TERRAIN_DATA_yields (terrain t)))
         (if modifier t = HILLS then EMPTY_YIELDS\<lparr>production := 1\<rparr> else EMPTY_YIELDS))
         (FEATURE_DATA_yields (feature t)))
         (RESOURCE_DATA_yields (resource t))"

subsection \<open>Sequences of setter calls\<close>

text \<open>
  One call of a setter on a cell, and a sequence of calls in which every call succeeds:
  an error thrown by a call ends the sequence, and \<open>apply_calls\<close> is then \<open>None\<close>.
\<close>

datatype call =
    SetTerrain TerrainType TerrainModifier
  | SetFeature FeatureType
  | SetResource ResourceType
  | SetDistrict DistrictType
  | SetWonder WonderType
  | SetNaturalWonder NaturalWonderType
  | SetImprovement ImprovementType
  | AddRiverEdge int
  | RemoveRiverEdge int
  | SetOwner "string option" bool

fun apply_call :: "int list Tile \<Rightarrow> call \<Rightarrow> error option \<times> int list Tile" where
  "apply_call t (SetTerrain terrain' modifier') = setTerrain t terrain' modifier'"
| "apply_call t (SetFeature feature') = setFeature t feature'"
| "apply_call t (SetResource resource') = setResource t resource'"
| "apply_call t (SetDistrict district') = setDistrict t district'"
| "apply_call t (SetWonder wonder') = setWonder t wonder'"
| "apply_call t (SetNaturalWonder naturalWonder') = setNaturalWonder t naturalWonder'"
| "apply_call t (SetImprovement improvement') = setImprovement t improvement'"
| "apply_call t (AddRiverEdge edge) = addRiverEdge t edge"
| "apply_call t (RemoveRiverEdge edge) = removeRiverEdge t edge"
| "apply_call t (SetOwner cityId isCityCenter') = setOwner t cityId isCityCenter'"

fun apply_calls :: "int list Tile \<Rightarrow> call list \<Rightarrow> int list Tile option" where
  "apply_calls t [] = Some t"
| "apply_calls t (c # cs) =
     (case apply_call t c of
        (None, t') \<Rightarrow> apply_calls t' cs
      | (Some e, t') \<Rightarrow> None)"

section \<open>Hex coordinates and the grid (GameMap.ts)\<close>

subsection \<open>Coordinate keys\<close>

text \<open>
  The template literal \<^verbatim>\<open>`${coord.q},${coord.r}`\<close> prints both numbers in decimal, a
  negative one with a leading minus sign.
\<close>

definition digit_char :: "nat \<Rightarrow> char" where
  "digit_char d = ''0123456789'' ! d"

function digits :: "nat \<Rightarrow> string" where
  "digits n = (if n < 10 then [digit_char n] else digits (n div 10) @ [digit_char (n mod 10)])"
  by pat_completeness auto
termination
  by (relation "measure id") auto

declare digits.simps [simp del]

definition Number_toString :: "int \<Rightarrow> string" where
  "Number_toString i = (if i < 0 then CHR ''-'' # digits (nat (- i)) else digits (nat i))"

definition coordToKey :: "HexCoord \<Rightarrow> string" where
  "coordToKey c = Number_toString (fst c) @ '','' @ Number_toString (snd c)"

subsection \<open>HexUtils\<close>

definition getNeighbors :: "HexCoord \<Rightarrow> HexCoord list" where
  "getNeighbors c =
     map (\<lambda>(dq, dr). (fst c + dq, snd c + dr))
       [(1, 0), (0, 1), (-1, 1), (-1, 0), (0, -1), (1, -1)]"

definition distance :: "HexCoord \<Rightarrow> HexCoord \<Rightarrow> int" where
  "distance a b =
     max (max \<bar>fst a - fst b\<bar> \<bar>snd a - snd b\<bar>) \<bar>(- fst a - snd a) - (- fst b - snd b)\<bar>"

text \<open>
  The two nested counters of \<^verbatim>\<open>getHexesInRange\<close>: \<open>q\<close> runs from \<open>-range\<close> to
  \<open>range\<close>, and for each \<open>q\<close> the inner counter \<open>r\<close> runs from
  \<open>max(-range, -q - range)\<close> to \<open>min(range, -q + range)\<close>; each step pushes one coordinate.
\<close>

definition getHexesInRange :: "HexCoord \<Rightarrow> int \<Rightarrow> HexCoord list" where
  "getHexesInRange center range' =
     concat (map (\<lambda>q. map (\<lambda>r. (fst center + q, snd center + r))
                          [max (- range') (- q - range') .. min range' (- q + range')])
                 [- range' .. range'])"

subsection \<open>GameMap\<close>

text \<open>
  \<^verbatim>\<open>tiles\<close> is a \<^verbatim>\<open>Map<string, Tile>\<close>: an insertion-ordered list of entries with
  \<^verbatim>\<open>set\<close> replacing the value of a present key in place and appending an absent one,
  which is \<^const>\<open>AList.update\<close>.
\<close>

record GameMap =
  tiles :: "(string \<times> int list Tile) list"
  width :: int
  height :: int
  name :: string

definition Map_set :: "(string \<times> 'v) list \<Rightarrow> string \<Rightarrow> 'v \<Rightarrow> (string \<times> 'v) list" where
  "Map_set m k v = AList.update k v m"

definition Map_get :: "(string \<times> 'v) list \<Rightarrow> string \<Rightarrow> 'v option" where
  "Map_get m k = map_of m k"

text \<open>
  \<^verbatim>\<open>initializeEmptyMap\<close>: the row counter \<open>r\<close> runs over \<open>0 \<le> r < height\<close>, and in
  row \<open>r\<close> the column counter runs over \<open>-qOffset \<le> q < width - qOffset\<close> with
  \<open>qOffset = Math.floor(r / 2)\<close>.
\<close>

definition initializeEmptyMap :: "GameMap \<Rightarrow> GameMap" where
  "initializeEmptyMap g =
     fold (\<lambda>r g.
        let qOffset = r div 2
        in fold (\<lambda>q g. g\<lparr>tiles := Map_set (tiles g) (coordToKey (q, r)) (newTile (q, r))\<rparr>)
             [- qOffset .. width g - qOffset - 1] g)
       [0 .. height g - 1] g"

definition new_GameMap :: "int \<Rightarrow> int \<Rightarrow> string \<Rightarrow> GameMap" where
  "new_GameMap w h n = initializeEmptyMap \<lparr>tiles = [], width = w, height = h, name = n\<rparr>"

definition getTile :: "GameMap \<Rightarrow> HexCoord \<Rightarrow> int list Tile option" where
  "getTile g c = Map_get (tiles g) (coordToKey c)"

definition setTile :: "GameMap \<Rightarrow> int list Tile \<Rightarrow> GameMap" where
  "setTile g t = g\<lparr>tiles := Map_set (tiles g) (coordToKey (coord t)) t\<rparr>"

definition isInBounds :: "GameMap \<Rightarrow> HexCoord \<Rightarrow> bool" where
  "isInBounds g c = (coordToKey c \<in> fst ` set (tiles g))"

definition getAllTiles :: "GameMap \<Rightarrow> int list Tile list" where
  "getAllTiles g = map snd (tiles g)"

definition getNeighborTiles :: "GameMap \<Rightarrow> HexCoord \<Rightarrow> int list Tile list" where
  "getNeighborTiles g c = List.map_filter (getTile g) (getNeighbors c)"

definition getTilesInRange :: "GameMap \<Rightarrow> HexCoord \<Rightarrow> int \<Rightarrow> int list Tile list" where
  "getTilesInRange g c range' = List.map_filter (getTile g) (getHexesInRange c range')"

definition findCityCenter :: "GameMap \<Rightarrow> int list Tile option" where
  "findCityCenter g = find isCityCenter (getAllTiles g)"

record GameMapData =
  gm_version :: int
  gm_name :: string
  gm_width :: int
  gm_height :: int
  gm_tiles :: "TileData list"

definition GameMap_toJSON :: "GameMap \<Rightarrow> GameMapData" where
  "GameMap_toJSON g = \<lparr>gm_version = 1, gm_name = name g, gm_width = width g,
     gm_height = height g, gm_tiles = map Tile_toJSON (getAllTiles g)\<rparr>"

text \<open>
  \<^verbatim>\<open>fromJSON\<close> constructs a map of the snapshot's size, clears its cells and stores one
  cell per entry of \<^verbatim>\<open>data.tiles\<close>.  It reads \<^verbatim>\<open>width\<close>, \<^verbatim>\<open>height\<close>, \<^verbatim>\<open>name\<close> and
  \<^verbatim>\<open>tiles\<close> and never \<^verbatim>\<open>version\<close>; the function contains no check and no \<^verbatim>\<open>throw\<close>
  statement.  The model is of the function on the values of its parameter type
  \<^verbatim>\<open>GameMapData\<close>.  On any other value (one without a \<^verbatim>\<open>tiles\<close> array, or with an entry
  without \<^verbatim>\<open>coord\<close>) the runtime raises a \<^verbatim>\<open>TypeError\<close> where the missing part is read;
  such values are outside the model.
\<close>

definition GameMap_fromJSON :: "GameMapData \<Rightarrow> GameMap" where
  "GameMap_fromJSON d =
     (let m = new_GameMap (gm_width d) (gm_height d) (gm_name d);
          m = m\<lparr>tiles := []\<rparr>
      in fold (\<lambda>tileData m.
            let tile = Tile_fromJSON tileData
            in m\<lparr>tiles := Map_set (tiles m) (coordToKey (coord tile)) tile\<rparr>)
           (gm_tiles d) m)"

section \<open>Adjacency engine\<close>

record DistrictAdjacencyResult =
  res_tile :: "int list Tile"
  res_districtType :: DistrictType
  totalBonus :: Yields
  bonusBreakdown :: "AdjacencyBonus list"

text \<open>
  Each rule function walks the neighbour list once and increments a counter for every
  neighbour that meets a condition; \<open>count P ns\<close> is the final value of such a counter.
\<close>

definition count :: "('a \<Rightarrow> bool) \<Rightarrow> 'a list \<Rightarrow> int" where
  "count P ns = int (length (filter P ns))"

definition push :: "'a list \<Rightarrow> 'a \<Rightarrow> 'a list" where
  "push xs x = xs @ [x]"

definition mkBonus :: "DistrictType \<Rightarrow> YieldKey \<Rightarrow> int \<Rightarrow> string \<Rightarrow> AdjacencyBonus" where
  "mkBonus d y n s = \<lparr>districtType = d, yieldType = y, amount = n, source = s\<rparr>"

definition calculateCampusAdjacency ::
  "int list Tile \<Rightarrow> int list Tile list \<Rightarrow> AdjacencyBonus list \<Rightarrow> AdjacencyBonus list" where
  "calculateCampusAdjacency tile neighbors bonuses =
     (let mountainCount = count isMountain neighbors;
          jungleCount = count (\<lambda>n. feature n = RAINFOREST) neighbors;
          districtCount = count hasDistrict neighbors;
          reefCount = count (\<lambda>n. feature n = REEF) neighbors;
          geothermalCount = count (\<lambda>n. feature n = GEOTHERMAL_FISSURE) neighbors;
          bonuses = (if mountainCount > 0
            then push bonuses (mkBonus CAMPUS Science mountainCount
                   (Number_toString mountainCount @ '' Mountain(s)''))
            else bonuses);
          halfBonusCount = (jungleCount + districtCount) div 2;
          bonuses = (if halfBonusCount > 0
            then push bonuses (mkBonus CAMPUS Science halfBonusCount
                   (Number_toString jungleCount @ '' Rainforest(s), ''
                      @ Number_toString districtCount @ '' District(s)''))
            else bonuses);
          bonuses = (if geothermalCount > 0
            then push bonuses (mkBonus CAMPUS Science (geothermalCount * 2)
                   (Number_toString geothermalCount @ '' Geothermal Fissure(s)''))
            else bonuses);
          bonuses = (if reefCount > 0
            then push bonuses (mkBonus CAMPUS Science (reefCount * 2)
                   (Number_toString reefCount @ '' Reef(s)''))
            else bonuses)
      in bonuses)"

definition calculateHolySiteAdjacency ::
  "int list Tile \<Rightarrow> int list Tile list \<Rightarrow> AdjacencyBonus list \<Rightarrow> AdjacencyBonus list" where
  "calculateHolySiteAdjacency tile neighbors bonuses =
     (let mountainCount = count isMountain neighbors;
          forestCount = count (\<lambda>n. feature n = WOODS) neighbors;
          naturalWonderCount = count hasNaturalWonder neighbors;
          districtCount = count hasDistrict neighbors;
          bonuses = (if mountainCount > 0
            then push bonuses (mkBonus HOLY_SITE Faith mountainCount
                   (Number_toString mountainCount @ '' Mountain(s)''))
            else bonuses);
          halfBonusCount = (forestCount + districtCount) div 2;
          bonuses = (if halfBonusCount > 0
            then push bonuses (mkBonus HOLY_SITE Faith halfBonusCount
                   (Number_toString forestCount @ '' Woods, ''
                      @ Number_toString districtCount @ '' District(s)''))
            else bonuses);
          bonuses = (if naturalWonderCount > 0
            then push bonuses (mkBonus HOLY_SITE Faith (naturalWonderCount * 2)
                   (Number_toString naturalWonderCount @ '' Natural Wonder(s)''))
            else bonuses)
      in bonuses)"

definition calculateTheaterSquareAdjacency ::
  "int list Tile \<Rightarrow> int list Tile list \<Rightarrow> AdjacencyBonus list \<Rightarrow> AdjacencyBonus list" where
  "calculateTheaterSquareAdjacency tile neighbors bonuses =
     (let wonderCount = count hasWonder neighbors;
          districtCount = count hasDistrict neighbors;
          bonuses = (if wonderCount > 0
            then push bonuses (mkBonus THEATER_SQUARE Culture (wonderCount * 2)
                   (Number_toString wonderCount @ '' Wonder(s)''))
            else bonuses);
          halfBonusCount = districtCount div 2;
          bonuses = (if halfBonusCount > 0
            then push bonuses (mkBonus THEATER_SQUARE Culture halfBonusCount
                   (Number_toString districtCount @ '' District(s)''))
            else bonuses)
      in bonuses)"

definition calculateCommercialHubAdjacency ::
  "int list Tile \<Rightarrow> int list Tile list \<Rightarrow> AdjacencyBonus list \<Rightarrow> AdjacencyBonus list" where
  "calculateCommercialHubAdjacency tile neighbors bonuses =
     (let bonuses = (if hasRiver tile
            then push bonuses (mkBonus COMMERCIAL_HUB Gold 2 ''River'')
            else bonuses);
          harborCount = count (\<lambda>n. district n = HARBOR) neighbors;
          districtCount = count hasDistrict neighbors;
          bonuses = (if harborCount > 0
            then push bonuses (mkBonus COMMERCIAL_HUB Gold (harborCount * 2)
                   (Number_toString harborCount @ '' Harbor(s)''))
            else bonuses);
          halfBonusCount = districtCount div 2;
          bonuses = (if halfBonusCount > 0
            then push bonuses (mkBonus COMMERCIAL_HUB Gold halfBonusCount
                   (Number_toString districtCount @ '' District(s)''))
            else bonuses)
      in bonuses)"

definition calculateHarborAdjacency ::
  "int list Tile \<Rightarrow> int list Tile list \<Rightarrow> AdjacencyBonus list \<Rightarrow> AdjacencyBonus list" where
  "calculateHarborAdjacency tile neighbors bonuses =
     (let coastalResourceCount =
            count (\<lambda>n. isWater n \<and> resource n \<noteq> RESOURCE_NONE) neighbors;
          cityCenterCount = count (\<lambda>n. district n = CITY_CENTER) neighbors;
          districtCount = count hasDistrict neighbors;
          bonuses = (if coastalResourceCount > 0
            then push bonuses (mkBonus HARBOR Gold coastalResourceCount
                   (Number_toString coastalResourceCount @ '' Coastal Resource(s)''))
            else bonuses);
          bonuses = (if cityCenterCount > 0
            then push bonuses (mkBonus HARBOR Gold (cityCenterCount * 2)
                   (Number_toString cityCenterCount @ '' City Center(s)''))
            else bonuses);
          halfBonusCount = districtCount div 2;
          bonuses = (if halfBonusCount > 0
            then push bonuses (mkBonus HARBOR Gold halfBonusCount
                   (Number_toString districtCount @ '' District(s)''))
            else bonuses)
      in bonuses)"

definition calculateIndustrialZoneAdjacency ::
  "int list Tile \<Rightarrow> int list Tile list \<Rightarrow> AdjacencyBonus list \<Rightarrow> AdjacencyBonus list" where
  "calculateIndustrialZoneAdjacency tile neighbors bonuses =
     (let mineCount = count (\<lambda>n. improvement n = MINE) neighbors;
          quarryCount = count (\<lambda>n. improvement n = QUARRY) neighbors;
          aqueductCount = count (\<lambda>n. district n = AQUEDUCT) neighbors;
          damCount = count (\<lambda>n. district n = DAM) neighbors;
          canalCount = count (\<lambda>n. district n = CANAL) neighbors;
          districtCount = count hasDistrict neighbors;
          strategicResourceCount =
            count (\<lambda>n. RESOURCE_DATA_category (resource n) = STRATEGIC) neighbors;
          bonuses = (if mineCount > 0
            then push bonuses (mkBonus INDUSTRIAL_ZONE Production mineCount
                   (Number_toString mineCount @ '' Mine(s)''))
            else bonuses);
          bonuses = (if quarryCount > 0
            then push bonuses (mkBonus INDUSTRIAL_ZONE Production quarryCount
                   (Number_toString quarryCount @ '' Quarry(ies)''))
            else bonuses);
          waterInfraBonus = (aqueductCount + damCount + canalCount) * 2;
          bonuses = (if waterInfraBonus > 0
            then push bonuses (mkBonus INDUSTRIAL_ZONE Production waterInfraBonus
                   (Number_toString aqueductCount @ '' Aqueduct(s), ''
                      @ Number_toString damCount @ '' Dam(s), ''
                      @ Number_toString canalCount @ '' Canal(s)''))
            else bonuses);
          halfBonusCount = districtCount div 2;
          bonuses = (if halfBonusCount > 0
            then push bonuses (mkBonus INDUSTRIAL_ZONE Production halfBonusCount
                   (Number_toString districtCount @ '' District(s)''))
            else bonuses);
          bonuses = (if strategicResourceCount > 0
            then push bonuses (mkBonus INDUSTRIAL_ZONE Production strategicResourceCount
                   (Number_toString strategicResourceCount @ '' Strategic Resource(s)''))
            else bonuses)
      in bonuses)"

definition calculateDistrictAdjacency :: "GameMap \<Rightarrow> int list Tile \<Rightarrow> DistrictAdjacencyResult" where
  "calculateDistrictAdjacency g tile =
     (let bonuses = [];
          neighbors = getNeighborTiles g (coord tile);
          bonuses =
            (case district tile of
               CAMPUS \<Rightarrow> calculateCampusAdjacency tile neighbors bonuses
             | HOLY_SITE \<Rightarrow> calculateHolySiteAdjacency tile neighbors bonuses
             | THEATER_SQUARE \<Rightarrow> calculateTheaterSquareAdjacency tile neighbors bonuses
             | COMMERCIAL_HUB \<Rightarrow> calculateCommercialHubAdjacency tile neighbors bonuses
             | HARBOR \<Rightarrow> calculateHarborAdjacency tile neighbors bonuses
             | INDUSTRIAL_ZONE \<Rightarrow> calculateIndustrialZoneAdjacency tile neighbors bonuses
             | _ \<Rightarrow> bonuses);
          govPlazaAdjacent = list_ex (\<lambda>n. district n = GOVERNMENT_PLAZA) neighbors;
          bonuses =
            (if govPlazaAdjacent \<and> isSpecialty (DISTRICT_DATA (district tile))
             then (case primaryYieldType (DISTRICT_DATA (district tile)) of
                     Some primaryYield \<Rightarrow>
                       push bonuses (mkBonus (district tile) primaryYield 1 ''Government Plaza'')
                   | None \<Rightarrow> bonuses)
             else bonuses);
          totalBonus = fold (\<lambda>bonus totalBonus.
                         yield_add totalBonus (yieldType bonus) (amount bonus))
                         bonuses EMPTY_YIELDS
      in \<lparr>res_tile = tile, res_districtType = district tile, totalBonus = totalBonus,
           bonusBreakdown = bonuses\<rparr>)"

record CityAdjacencyResult =
  cityCenter :: HexCoord
  districts :: "DistrictAdjacencyResult list"
  totalYields :: Yields

definition calculateCityAdjacency :: "GameMap \<Rightarrow> HexCoord \<Rightarrow> CityAdjacencyResult" where
  "calculateCityAdjacency g cityCenter' =
     (let workableTiles = getTilesInRange g cityCenter' 3;
          districtTiles = filter (\<lambda>t. hasDistrict t \<and> district t \<noteq> CITY_CENTER) workableTiles;
          districts' = map (calculateDistrictAdjacency g) districtTiles;
          totalYields' = fold (\<lambda>d totalYields.
              fold (\<lambda>key totalYields. yield_add totalYields key (yield_get (totalBonus d) key))
                [Food, Production, Gold, Science, Culture, Faith] totalYields)
            districts' EMPTY_YIELDS
      in \<lparr>cityCenter = cityCenter', districts = districts', totalYields = totalYields'\<rparr>)"

definition calculatePotentialAdjacency ::
  "GameMap \<Rightarrow> HexCoord \<Rightarrow> DistrictType \<Rightarrow> DistrictAdjacencyResult option" where
  "calculatePotentialAdjacency g c districtType' =
     (case getTile g c of
        None \<Rightarrow> None
      | Some tile \<Rightarrow>
          let tempTile = Tile_fromJSON ((Tile_toJSON tile)\<lparr>td_district := districtType'\<rparr>)
          in Some (calculateDistrictAdjacency g tempTile))"

definition canPlaceDistrict :: "'e Tile \<Rightarrow> DistrictType \<Rightarrow> bool" where
  "canPlaceDistrict tile districtType' =
     (let districtInfo = DISTRICT_DATA districtType'
      in if requiresCoast districtInfo \<and> \<not> isWater tile then False
         else if requiresLand districtInfo \<and> isWater tile then False
         else if \<not> canBuildOnHills districtInfo \<and> isHill tile then False
         else True)"

text \<open>
  The search loop.  \<open>bestTotal\<close> starts at \<^verbatim>\<open>-Infinity\<close>, which is \<open>None\<close> here:
  every total is greater than it.
\<close>

definition greater_than_best :: "int \<Rightarrow> int option \<Rightarrow> bool" where
  "greater_than_best total' bestTotal = (case bestTotal of None \<Rightarrow> True | Some b \<Rightarrow> total' > b)"

fun findBest_loop ::
  "GameMap \<Rightarrow> DistrictType \<Rightarrow> int list Tile list
     \<Rightarrow> (HexCoord \<times> DistrictAdjacencyResult) option \<Rightarrow> int option
     \<Rightarrow> (HexCoord \<times> DistrictAdjacencyResult) option" where
  "findBest_loop g districtType' [] bestResult bestTotal = bestResult"
| "findBest_loop g districtType' (tile # rest) bestResult bestTotal =
     (case calculatePotentialAdjacency g (coord tile) districtType' of
        None \<Rightarrow> findBest_loop g districtType' rest bestResult bestTotal
      | Some result \<Rightarrow>
          let total' = (case primaryYieldType (DISTRICT_DATA districtType') of
                         Some primary \<Rightarrow> yield_get (totalBonus result) primary
                       | None \<Rightarrow> 0)
          in if greater_than_best total' bestTotal
             then findBest_loop g districtType' rest (Some (coord tile, result)) (Some total')
             else findBest_loop g districtType' rest bestResult bestTotal)"

definition validTiles :: "GameMap \<Rightarrow> HexCoord \<Rightarrow> DistrictType \<Rightarrow> int list Tile list" where
  "validTiles g cityCenter' districtType' =
     filter (\<lambda>t. \<not> hasDistrict t \<and> \<not> isMountain t \<and> canPlaceDistrict t districtType')
       (getTilesInRange g cityCenter' 3)"

definition findBestDistrictPlacement ::
  "GameMap \<Rightarrow> HexCoord \<Rightarrow> DistrictType \<Rightarrow> (HexCoord \<times> DistrictAdjacencyResult) option" where
  "findBestDistrictPlacement g cityCenter' districtType' =
     findBest_loop g districtType' (validTiles g cityCenter' districtType') None None"

section \<open>Notions used in the statements about the grid\<close>

text \<open>
  The coordinates that \<^verbatim>\<open>initializeEmptyMap\<close> visits, in the order of the visit.
\<close>

definition region_coords :: "int \<Rightarrow> int \<Rightarrow> HexCoord list" where
  "region_coords w h =
     concat (map (\<lambda>r. map (\<lambda>q. (q, r)) [- (r div 2) .. w - r div 2 - 1]) [0 .. h - 1])"

text \<open>
  What holds of every grid that the class can hold: a \<^verbatim>\<open>Set\<close> has no member twice, a
  \<^verbatim>\<open>Map\<close> has no key twice, and every write to \<^verbatim>\<open>tiles\<close> (\<^verbatim>\<open>initializeEmptyMap\<close>,
  \<^verbatim>\<open>setTile\<close>, \<^verbatim>\<open>fromJSON\<close>) stores a cell under the key of the cell's own coordinate,
  which no setter changes.
\<close>

definition wf_Tile :: "int list Tile \<Rightarrow> bool" where
  "wf_Tile t = distinct (riverEdges t)"

definition wf_GameMap :: "GameMap \<Rightarrow> bool" where
  "wf_GameMap g =
     (distinct (map fst (tiles g))
      \<and> list_all (\<lambda>(k, t). k = coordToKey (coord t) \<and> wf_Tile t) (tiles g))"


section \<open>Notions used in the statements about the engine\<close>

text \<open>
  The three conditions of the filter in \<^verbatim>\<open>findBestDistrictPlacement\<close>, on a cell and on
  the cell found at a coordinate.
\<close>

definition eligible :: "DistrictType \<Rightarrow> int list Tile \<Rightarrow> bool" where
  "eligible d t = (\<not> hasDistrict t \<and> \<not> isMountain t \<and> canPlaceDistrict t d)"

definition placeable :: "GameMap \<Rightarrow> DistrictType \<Rightarrow> HexCoord \<Rightarrow> bool" where
  "placeable g d c = (case getTile g c of None \<Rightarrow> False | Some t \<Rightarrow> eligible d t)"

text \<open>
  The number that the search compares: the total of the district's primary yield in the
  potential adjacency at a coordinate, 0 for a district without primary yield.
\<close>

definition placement_score :: "GameMap \<Rightarrow> DistrictType \<Rightarrow> HexCoord \<Rightarrow> int" where
  "placement_score g d c =
     (case calculatePotentialAdjacency g c d of
        None \<Rightarrow> 0
      | Some result \<Rightarrow>
          (case primaryYieldType (DISTRICT_DATA d) of
             Some primary \<Rightarrow> yield_get (totalBonus result) primary
           | None \<Rightarrow> 0))"

text \<open>
  Position \<open>i\<close> of the list holds the greatest score of the list, and every earlier position
  holds a smaller one.
\<close>

definition first_maximum :: "('a \<Rightarrow> int) \<Rightarrow> 'a list \<Rightarrow> nat \<Rightarrow> bool" where
  "first_maximum s xs i =
     (i < length xs
      \<and> list_all (\<lambda>x. s x \<le> s (xs ! i)) xs
      \<and> list_all (\<lambda>x. s x < s (xs ! i)) (take i xs))"

text \<open>A fresh 2 by 2 grid whose cell \<open>(0, 0)\<close> was made the city center.\<close>

definition city_grid :: GameMap where
  "city_grid =
     setTile (new_GameMap 2 2 ''m'') (snd (setOwner (newTile (0, 0)) (Some ''city1'') True))"

text \<open>
  A fresh 3 by 3 grid with three districts next to \<open>(1, 1)\<close>, and a Commercial Hub cell at
  \<open>(1, 1)\<close> with given river edges.
\<close>

definition hub_grid :: GameMap where
  "hub_grid =
     fold (\<lambda>t g. setTile g t)
       [(newTile (2, 1))\<lparr>district := CAMPUS\<rparr>, (newTile (0, 1))\<lparr>district := HOLY_SITE\<rparr>,
        (newTile (1, 0))\<lparr>district := CITY_CENTER\<rparr>]
       (new_GameMap 3 3 ''m'')"

definition hub_tile :: "int list \<Rightarrow> int list Tile" where
  "hub_tile edges = (newTile (1, 1))\<lparr>district := COMMERCIAL_HUB, riverEdges := edges\<rparr>"

section \<open>The store model: cells and river-edge Sets as objects\<close>

text \<open>
  The value model above holds a cell's \<^verbatim>\<open>Set\<close> of river edges inside the cell and a grid's
  cells inside the grid, which is what the objects contain but not which objects they are.
  Where a statement is about sharing (does the set that the \<^verbatim>\<open>riverEdges\<close> getter returns
  alias the cell's own set?  does an evaluation write to a cell of the grid?), objects
  live in a store: a list of objects in the order of their allocation, the address of an
  object being its position.  A cell object holds the address of its Set object, and the
  grid's \<^verbatim>\<open>Map\<close> holds the addresses of its cells.
\<close>

type_synonym addr = nat

datatype obj = SetObj "int list" | TileObj "addr Tile"

type_synonym heap = "obj list"

definition alloc :: "heap \<Rightarrow> obj \<Rightarrow> addr \<times> heap" where
  "alloc h ob = (length h, h @ [ob])"

definition deref_Set :: "heap \<Rightarrow> addr \<Rightarrow> int list option" where
  "deref_Set h a =
     (if a < length h then (case h ! a of SetObj s \<Rightarrow> Some s | TileObj t \<Rightarrow> None) else None)"

definition deref_Tile :: "heap \<Rightarrow> addr \<Rightarrow> addr Tile option" where
  "deref_Tile h a =
     (if a < length h then (case h ! a of TileObj t \<Rightarrow> Some t | SetObj s \<Rightarrow> None) else None)"

text \<open>
  A method called through an address that holds no object of the right class has no
  counterpart in the source; the model leaves the store as it is then.
\<close>

definition Set_add_s :: "heap \<Rightarrow> addr \<Rightarrow> int \<Rightarrow> heap" where
  "Set_add_s h s x =
     (case deref_Set h s of None \<Rightarrow> h | Some es \<Rightarrow> h[s := SetObj (Set_add es x)])"

definition Set_delete_s :: "heap \<Rightarrow> addr \<Rightarrow> int \<Rightarrow> heap" where
  "Set_delete_s h s x =
     (case deref_Set h s of None \<Rightarrow> h | Some es \<Rightarrow> h[s := SetObj (Set_delete es x)])"

text \<open>\<^verbatim>\<open>new Set(iterable)\<close> allocates a Set object.\<close>

definition Set_new_s :: "heap \<Rightarrow> int list \<Rightarrow> addr \<times> heap" where
  "Set_new_s h xs = alloc h (SetObj (Set_new xs))"

text \<open>\<^verbatim>\<open>new Tile(coord)\<close>: the field initialiser \<^verbatim>\<open>new Set()\<close> allocates the cell's Set.\<close>

definition new_Tile_s :: "heap \<Rightarrow> HexCoord \<Rightarrow> addr \<times> heap" where
  "new_Tile_s h c =
     (let (s, h) = Set_new_s h []
      in alloc h (TileObj (new_Tile c s)))"

text \<open>The getter \<^verbatim>\<open>riverEdges\<close>: \<^verbatim>\<open>return new Set(this._riverEdges)\<close>.\<close>

definition Tile_riverEdges :: "heap \<Rightarrow> addr \<Rightarrow> addr \<times> heap" where
  "Tile_riverEdges h a =
     (case deref_Tile h a of
        None \<Rightarrow> (a, h)
      | Some t \<Rightarrow>
          (case deref_Set h (riverEdges t) of
             None \<Rightarrow> (a, h)
           | Some es \<Rightarrow> Set_new_s h es))"

text \<open>A setter that does not touch the Set works on the cell object alone.\<close>

definition call_s ::
  "heap \<Rightarrow> addr \<Rightarrow> (addr Tile \<Rightarrow> error option \<times> addr Tile) \<Rightarrow> error option \<times> heap" where
  "call_s h a f =
     (case deref_Tile h a of
        None \<Rightarrow> (None, h)
      | Some t \<Rightarrow> (let (e, t') = f t in (e, h[a := TileObj t'])))"

definition addRiverEdge_s :: "heap \<Rightarrow> addr \<Rightarrow> int \<Rightarrow> error option \<times> heap" where
  "addRiverEdge_s h a edge =
     (if edge < 0 \<or> edge > 5
      then (Some (Error ''River edge must be between 0 and 5''), h)
      else (case deref_Tile h a of
              None \<Rightarrow> (None, h)
            | Some t \<Rightarrow> (None, Set_add_s h (riverEdges t) edge)))"

definition removeRiverEdge_s :: "heap \<Rightarrow> addr \<Rightarrow> int \<Rightarrow> error option \<times> heap" where
  "removeRiverEdge_s h a edge =
     (case deref_Tile h a of
        None \<Rightarrow> (None, h)
      | Some t \<Rightarrow> (None, Set_delete_s h (riverEdges t) edge))"

fun apply_call_s :: "heap \<Rightarrow> addr \<Rightarrow> call \<Rightarrow> error option \<times> heap" where
  "apply_call_s h a (SetTerrain terrain' modifier') =
     call_s h a (\<lambda>t. setTerrain t terrain' modifier')"
| "apply_call_s h a (SetFeature feature') = call_s h a (\<lambda>t. setFeature t feature')"
| "apply_call_s h a (SetResource resource') = call_s h a (\<lambda>t. setResource t resource')"
| "apply_call_s h a (SetDistrict district') = call_s h a (\<lambda>t. setDistrict t district')"
| "apply_call_s h a (SetWonder wonder') = call_s h a (\<lambda>t. setWonder t wonder')"
| "apply_call_s h a (SetNaturalWonder naturalWonder') =
     call_s h a (\<lambda>t. setNaturalWonder t naturalWonder')"
| "apply_call_s h a (SetImprovement improvement') =
     call_s h a (\<lambda>t. setImprovement t improvement')"
| "apply_call_s h a (AddRiverEdge edge) = addRiverEdge_s h a edge"
| "apply_call_s h a (RemoveRiverEdge edge) = removeRiverEdge_s h a edge"
| "apply_call_s h a (SetOwner cityId isCityCenter') =
     call_s h a (\<lambda>t. setOwner t cityId isCityCenter')"

fun is_river_call :: "call \<Rightarrow> bool" where
  "is_river_call (AddRiverEdge edge) = True"
| "is_river_call (RemoveRiverEdge edge) = True"
| "is_river_call c = False"

text \<open>The cell at an address as the value model sees it: its fields, and its Set by value.\<close>

definition with_riverEdges :: "'a Tile \<Rightarrow> 'b \<Rightarrow> 'b Tile" where
  "with_riverEdges t es = \<lparr>coord = coord t, terrain = terrain t, modifier = modifier t,
     feature = feature t, resource = resource t, district = district t, wonder = wonder t,
     naturalWonder = naturalWonder t, improvement = improvement t, riverEdges = es,
     ownerCityId = ownerCityId t, isCityCenter = isCityCenter t\<rparr>"

definition view_Tile :: "heap \<Rightarrow> addr \<Rightarrow> int list Tile option" where
  "view_Tile h a =
     (case deref_Tile h a of
        None \<Rightarrow> None
      | Some t \<Rightarrow> map_option (with_riverEdges t) (deref_Set h (riverEdges t)))"

definition hasRiver_s :: "heap \<Rightarrow> addr \<Rightarrow> bool" where
  "hasRiver_s h a = (case view_Tile h a of None \<Rightarrow> False | Some t \<Rightarrow> hasRiver t)"

text \<open>\<^verbatim>\<open>toJSON\<close> reads the fields and copies the members of the Set into a new array.\<close>

definition Tile_toJSON_s :: "heap \<Rightarrow> addr \<Rightarrow> TileData option" where
  "Tile_toJSON_s h a = map_option Tile_toJSON (view_Tile h a)"

text \<open>
  \<^verbatim>\<open>Tile.fromJSON\<close>: \<^verbatim>\<open>new Tile(data.coord)\<close>, the assignments of the fields, and among them
  \<^verbatim>\<open>tile._riverEdges = new Set(data.riverEdges)\<close>, which allocates the Set the cell keeps.
\<close>

definition Tile_fromJSON_s :: "heap \<Rightarrow> TileData \<Rightarrow> addr \<times> heap" where
  "Tile_fromJSON_s h d =
     (let (a, h) = new_Tile_s h (td_coord d);
          (s, h) = Set_new_s h (td_riverEdges d)
      in (a, snd (call_s h a (\<lambda>t. (None, t\<lparr>terrain := td_terrain d,
            modifier := td_modifier d, feature := td_feature d, resource := td_resource d,
            district := td_district d, wonder := td_wonder d,
            naturalWonder := td_naturalWonder d, improvement := td_improvement d,
            riverEdges := s, ownerCityId := td_ownerCityId d,
            isCityCenter := td_isCityCenter d\<rparr>)))))"

text \<open>The state that the engine can reach: the store, and the grid with its \<^verbatim>\<open>Map\<close>.\<close>

record world =
  objs :: heap
  w_tiles :: "(string \<times> addr) list"
  w_width :: int
  w_height :: int
  w_name :: string

definition getTile_s :: "world \<Rightarrow> HexCoord \<Rightarrow> addr option" where
  "getTile_s w c = Map_get (w_tiles w) (coordToKey c)"

definition view_GameMap :: "world \<Rightarrow> GameMap" where
  "view_GameMap w =
     \<lparr>tiles = List.map_filter (\<lambda>(k, a). map_option (Pair k) (view_Tile (objs w) a)) (w_tiles w),
      width = w_width w, height = w_height w, name = w_name w\<rparr>"

definition GameMap_toJSON_s :: "world \<Rightarrow> GameMapData" where
  "GameMap_toJSON_s w = \<lparr>gm_version = 1, gm_name = w_name w, gm_width = w_width w,
     gm_height = w_height w,
     gm_tiles = List.map_filter (Tile_toJSON_s (objs w)) (map snd (w_tiles w))\<rparr>"

text \<open>
  \<^verbatim>\<open>calculatePotentialAdjacency\<close>: look the cell up; build the temporary cell with
  \<^verbatim>\<open>Tile.fromJSON({...tile.toJSON(), district: districtType})\<close>; run
  \<^verbatim>\<open>calculateDistrictAdjacency\<close> on it, which reads the temporary cell and the grid's
  neighbours of its coordinate.  The result refers to the temporary cell.
\<close>

definition calculatePotentialAdjacency_s ::
  "world \<Rightarrow> HexCoord \<Rightarrow> DistrictType
     \<Rightarrow> (addr \<times> DistrictAdjacencyResult) option \<times> world" where
  "calculatePotentialAdjacency_s w c districtType' =
     (case getTile_s w c of
        None \<Rightarrow> (None, w)
      | Some tile \<Rightarrow>
          (case Tile_toJSON_s (objs w) tile of
             None \<Rightarrow> (None, w)
           | Some data \<Rightarrow>
               let (tempTile, h) = Tile_fromJSON_s (objs w) (data\<lparr>td_district := districtType'\<rparr>);
                   w = w\<lparr>objs := h\<rparr>
               in (case view_Tile h tempTile of
                     None \<Rightarrow> (None, w)
                   | Some t \<Rightarrow>
                       (Some (tempTile, calculateDistrictAdjacency (view_GameMap w) t), w))))"

text \<open>
  Every reference that the grid holds leads to an object of the right class: the Map to
  cells stored under the key of their coordinate, each cell to its Set.
\<close>

definition wf_world :: "world \<Rightarrow> bool" where
  "wf_world w =
     (distinct (map fst (w_tiles w))
      \<and> list_all (\<lambda>(k, a). case view_Tile (objs w) a of
                             None \<Rightarrow> False
                           | Some t \<Rightarrow> k = coordToKey (coord t) \<and> wf_Tile t) (w_tiles w))"

definition river_world :: world where
  "river_world =
     \<lparr>objs = [SetObj [2, 5], TileObj (new_Tile (0, 0) 0), SetObj [], TileObj (new_Tile (1, 0) 2)],
      w_tiles = [(coordToKey (0, 0), 1), (coordToKey (1, 0), 3)],
      w_width = 2, w_height = 1, w_name = ''m''\<rparr>"

section \<open>Properties of coordinate keys\<close>

lemma digit_char_inj: "a < 10 \<Longrightarrow> b < 10 \<Longrightarrow> digit_char a = digit_char b \<Longrightarrow> a = b"
proof -
  assume a: "a < 10" and b: "b < 10" and e: "digit_char a = digit_char b"
  have d: "distinct ''0123456789''" by simp
  have "a < length ''0123456789''" "b < length ''0123456789''" using a b by simp_all
  with d e show "a = b" unfolding digit_char_def by (simp only: nth_eq_iff_index_eq)
qed

lemma digit_char_set: "d < 10 \<Longrightarrow> digit_char d \<in> set ''0123456789''"
  unfolding digit_char_def by (rule nth_mem) simp

lemma digits_nonempty: "digits n \<noteq> []"
  by (subst digits.simps) simp

lemma digits_set: "set (digits n) \<subseteq> set ''0123456789''"
proof (induction n rule: digits.induct)
  case (1 n)
  show ?case
  proof (cases "n < 10")
    case True
    then show ?thesis using digit_char_set [of n] by (subst digits.simps) simp
  next
    case False
    have "n mod 10 < 10" by simp
    then have "digit_char (n mod 10) \<in> set ''0123456789''" by (rule digit_char_set)
    with False 1 show ?thesis by (subst digits.simps) simp
  qed
qed

lemma digits_inj: "digits a = digits b \<Longrightarrow> a = b"
proof (induction a arbitrary: b rule: digits.induct)
  case (1 n)
  show ?case
  proof (cases "n < 10")
    case True
    note n = True
    show ?thesis
    proof (cases "b < 10")
      case True
      with n "1.prems" show ?thesis
        using digit_char_inj [of n b] by (simp add: digits.simps [of n] digits.simps [of b])
    next
      case False
      with n "1.prems" digits_nonempty [of "b div 10"] show ?thesis
        by (simp add: digits.simps [of n] digits.simps [of b])
    qed
  next
    case False
    note n = False
    show ?thesis
    proof (cases "b < 10")
      case True
      with n "1.prems" digits_nonempty [of "n div 10"] show ?thesis
        by (simp add: digits.simps [of n] digits.simps [of b])
    next
      case False
      with n "1.prems" have e: "digits (n div 10) = digits (b div 10)"
        and d: "digit_char (n mod 10) = digit_char (b mod 10)"
        by (simp_all add: digits.simps [of n] digits.simps [of b])
      from "1.IH" [OF n e] have "n div 10 = b div 10" .
      moreover from d have "n mod 10 = b mod 10" by (intro digit_char_inj) simp_all
      ultimately show ?thesis by (metis div_mult_mod_eq)
    qed
  qed
qed

lemma digits_no_minus: "CHR ''-'' \<notin> set (digits n)"
  using digits_set [of n] by auto

lemma digits_no_comma: "CHR '','' \<notin> set (digits n)"
  using digits_set [of n] by auto

lemma Number_toString_inj: "Number_toString a = Number_toString b \<Longrightarrow> a = b"
proof -
  assume e: "Number_toString a = Number_toString b"
  have hd_digits: "\<And>n. hd (digits n) \<noteq> CHR ''-''"
    using digits_no_minus digits_nonempty by (metis hd_in_set)
  show "a = b"
  proof (cases "a < 0")
    case True
    note a = True
    show ?thesis
    proof (cases "b < 0")
      case True
      with a e have "digits (nat (- a)) = digits (nat (- b))" by (simp add: Number_toString_def)
      then have "nat (- a) = nat (- b)" by (rule digits_inj)
      with a True show ?thesis by simp
    next
      case False
      with a e have "CHR ''-'' # digits (nat (- a)) = digits (nat b)"
        by (simp add: Number_toString_def)
      then have "hd (digits (nat b)) = CHR ''-''" by (metis list.sel(1))
      with hd_digits show ?thesis by blast
    qed
  next
    case False
    note a = False
    show ?thesis
    proof (cases "b < 0")
      case True
      with a e have "digits (nat a) = CHR ''-'' # digits (nat (- b))"
        by (simp add: Number_toString_def)
      then have "hd (digits (nat a)) = CHR ''-''" by (metis list.sel(1))
      with hd_digits show ?thesis by blast
    next
      case False
      with a e have "digits (nat a) = digits (nat b)" by (simp add: Number_toString_def)
      then have "nat a = nat b" by (rule digits_inj)
      with a False show ?thesis by simp
    qed
  qed
qed

lemma Number_toString_no_comma: "CHR '','' \<notin> set (Number_toString i)"
  using digits_no_comma by (simp add: Number_toString_def)

lemma split_at_separator:
  "x \<notin> set as \<Longrightarrow> x \<notin> set cs \<Longrightarrow> as @ x # bs = cs @ x # ds \<Longrightarrow> as = cs \<and> bs = ds"
proof (induction as arbitrary: cs)
  case Nil
  then show ?case by (cases cs) auto
next
  case (Cons a as)
  then show ?case by (cases cs) auto
qed

text \<open>The key is a faithful name of the coordinate: two coordinates share a key only if equal.\<close>

lemma coordToKey_inj [simp]: "coordToKey a = coordToKey b \<longleftrightarrow> a = b"
proof
  assume "coordToKey a = coordToKey b"
  then have "Number_toString (fst a) @ CHR '','' # Number_toString (snd a)
           = Number_toString (fst b) @ CHR '','' # Number_toString (snd b)"
    by (simp add: coordToKey_def)
  then have "Number_toString (fst a) = Number_toString (fst b)
           \<and> Number_toString (snd a) = Number_toString (snd b)"
    using split_at_separator [OF Number_toString_no_comma Number_toString_no_comma] by blast
  then show "a = b" by (auto intro: prod_eqI Number_toString_inj)
qed simp

section \<open>Properties of a cell\<close>

lemmas setter_defs = setTerrain_def setFeature_def setResource_def setDistrict_def
  setWonder_def setNaturalWonder_def setImprovement_def addRiverEdge_def
  removeRiverEdge_def setOwner_def

lemma baseYields_fields:
  "food (baseYields t) = food (baseYields_spec t)"
  "production (baseYields t) = production (baseYields_spec t)"
  "gold (baseYields t) = gold (baseYields_spec t)"
  "science (baseYields t) = 0" "culture (baseYields t) = 0" "faith (baseYields t) = 0"
  by (simp_all add: baseYields_def baseYields_spec_def Yields_plus_def EMPTY_YIELDS_def Let_def)

text \<open>
  C1.  The claim: \<^verbatim>\<open>baseYields\<close> is the sum, over all six yield fields, of the terrain's,
  the hill modifier's, the feature's and the resource's yields.  The getter adds only
  \<^verbatim>\<open>food\<close>, \<^verbatim>\<open>production\<close> and \<^verbatim>\<open>gold\<close>.  On a fresh Grass cell that received a
  Geothermal Fissure (a valid placement; the table gives the feature 1 science) the getter
  returns science 0, while the sum that the claim describes has science 1.
\<close>

theorem C1_baseYields_drops_science:
  "setFeature (newTile (0, 0)) GEOTHERMAL_FISSURE
     = (None, (newTile (0, 0))\<lparr>feature := GEOTHERMAL_FISSURE\<rparr>)
   \<and> science (FEATURE_DATA_yields GEOTHERMAL_FISSURE) = 1
   \<and> baseYields ((newTile (0, 0))\<lparr>feature := GEOTHERMAL_FISSURE\<rparr>)
       = \<lparr>food = 2, production = 0, gold = 0, science = 0, culture = 0, faith = 0\<rparr>
   \<and> baseYields_spec ((newTile (0, 0))\<lparr>feature := GEOTHERMAL_FISSURE\<rparr>)
       = \<lparr>food = 2, production = 0, gold = 0, science = 1, culture = 0, faith = 0\<rparr>"
  by (simp add: setFeature_def newTile_def new_Tile_def baseYields_def baseYields_spec_def
        Yields_plus_def EMPTY_YIELDS_def)

lemma setTerrain_aon: "fst (setTerrain t a b) = None \<or> snd (setTerrain t a b) = t"
  by (simp add: setTerrain_def)

lemma setFeature_aon: "fst (setFeature t a) = None \<or> snd (setFeature t a) = t"
  by (simp add: setFeature_def)

lemma setDistrict_aon: "fst (setDistrict t a) = None \<or> snd (setDistrict t a) = t"
  by (simp add: setDistrict_def Let_def)

lemma setImprovement_aon: "fst (setImprovement t a) = None \<or> snd (setImprovement t a) = t"
  by (simp add: setImprovement_def)

lemma addRiverEdge_aon: "fst (addRiverEdge t a) = None \<or> snd (addRiverEdge t a) = t"
  by (simp add: addRiverEdge_def)

lemma setters_never_throw:
  "fst (setResource t r) = None" "fst (setWonder t w) = None"
  "fst (setNaturalWonder t n) = None" "fst (removeRiverEdge u e) = None"
  "fst (setOwner t c b) = None"
  by (simp_all add: setResource_def setWonder_def setNaturalWonder_def removeRiverEdge_def
        setOwner_def Let_def)

lemma setTerrain_on_water:
  "(m = MOUNTAIN \<or> m = HILLS) \<and> (a = COAST \<or> a = OCEAN)
     \<longrightarrow> fst (setTerrain t a m) \<noteq> None \<and> snd (setTerrain t a m) = t"
  by (simp add: setTerrain_def)

lemma setTerrain_post:
  "(fst (setTerrain t a m) = None)
     = (\<not> ((m = MOUNTAIN \<or> m = HILLS) \<and> (a = COAST \<or> a = OCEAN)))"
  "fst (setTerrain t a m) = None \<longrightarrow> snd (setTerrain t a m) = t\<lparr>terrain := a, modifier := m\<rparr>"
  by (auto simp add: setTerrain_def)

lemma setFeature_post:
  "(fst (setFeature t f) = None)
     = (f = FEATURE_NONE \<or> terrain t \<in> set (FEATURE_DATA_validTerrains f))"
  "fst (setFeature t f) = None \<longrightarrow> snd (setFeature t f) = t\<lparr>feature := f\<rparr>"
  by (simp_all add: setFeature_def)

lemma setDistrict_post:
  "(fst (setDistrict t d) = None)
     = (d = DISTRICT_NONE
        \<or> (modifier t \<noteq> MOUNTAIN
            \<and> (terrain t = COAST \<or> terrain t = OCEAN \<longrightarrow> d = HARBOR \<or> d = WATER_PARK)))"
  "fst (setDistrict t d) = None \<longrightarrow>
     snd (setDistrict t d)
       = (if d = DISTRICT_NONE then t\<lparr>district := d\<rparr>
          else t\<lparr>district := d, improvement := IMPROVEMENT_NONE, feature := FEATURE_NONE\<rparr>)"
  by (auto simp add: setDistrict_def Let_def)

lemma setImprovement_post:
  "(fst (setImprovement t i) = None) = (district t = DISTRICT_NONE \<and> wonder t = WONDER_NONE)"
  "fst (setImprovement t i) = None \<longrightarrow> snd (setImprovement t i) = t\<lparr>improvement := i\<rparr>"
  by (simp_all add: setImprovement_def)

lemma addRiverEdge_post:
  "(fst (addRiverEdge u e) = None) = (0 \<le> e \<and> e \<le> 5)"
  "fst (addRiverEdge u e) = None \<longrightarrow>
     snd (addRiverEdge u e) = u\<lparr>riverEdges := Set_add (riverEdges u) e\<rparr>
     \<and> set (riverEdges (snd (addRiverEdge u e))) = insert e (set (riverEdges u))"
  by (auto simp add: addRiverEdge_def Set_add_def)

lemma removeRiverEdge_post:
  "snd (removeRiverEdge u e) = u\<lparr>riverEdges := Set_delete (riverEdges u) e\<rparr>
   \<and> set (riverEdges (snd (removeRiverEdge u e))) = set (riverEdges u) - {e}"
  by (simp add: removeRiverEdge_def Set_delete_def)

lemma setters_total_post:
  "snd (setResource t r) = t\<lparr>resource := r\<rparr>"
  "snd (setWonder t w)
     = (if w = WONDER_NONE then t\<lparr>wonder := w\<rparr>
        else t\<lparr>wonder := w, improvement := IMPROVEMENT_NONE\<rparr>)"
  "snd (setNaturalWonder t n) = t\<lparr>naturalWonder := n\<rparr>"
  "snd (setOwner t c b)
     = (if b then t\<lparr>ownerCityId := c, isCityCenter := b, district := CITY_CENTER\<rparr>
        else t\<lparr>ownerCityId := c, isCityCenter := b\<rparr>)"
  by (simp_all add: setResource_def setWonder_def setNaturalWonder_def setOwner_def Let_def)

text \<open>
  C4.  Every setter either succeeds and returns the updated cell, or throws and leaves the
  cell as it was before the call.  For each setter the statement gives the three parts:
  when the call succeeds; that a call which throws returns the state it was given; and
  what the cell is after a call that succeeds.
  \<^item> \<^verbatim>\<open>setTerrain\<close> throws exactly for the Mountain or Hills modifier on Coast or Ocean,
    and then the cell (terrain and modifier included) is unchanged; otherwise the cell has
    the new terrain and modifier.
  \<^item> \<^verbatim>\<open>setFeature\<close> throws exactly for a feature other than None whose valid terrains
    exclude the cell's terrain; otherwise the cell has the new feature.
  \<^item> \<^verbatim>\<open>setDistrict\<close> throws exactly for a district other than None on a Mountain, or on
    Coast or Ocean when it is neither Harbor nor Water Park; otherwise the cell has the new
    district and, if that is not None, no improvement and no feature.
  \<^item> \<^verbatim>\<open>setImprovement\<close> throws exactly on a cell with a district or a wonder; otherwise
    the cell has the new improvement.
  \<^item> \<^verbatim>\<open>addRiverEdge\<close> throws exactly for an edge below 0 or above 5; otherwise the edge
    is a member of the cell's river edges, next to the members of before.
  \<^item> \<^verbatim>\<open>setResource\<close>, \<^verbatim>\<open>setWonder\<close>, \<^verbatim>\<open>setNaturalWonder\<close>, \<^verbatim>\<open>removeRiverEdge\<close> and
    \<^verbatim>\<open>setOwner\<close> never throw: the cell has the new resource; the new wonder and, if
    that is not None, no improvement; the new natural wonder; the river edges of before
    without the edge; the new owner and city-center flag and, if the flag is set, the City
    Center district.
  In every case the fields not named are those of before.
\<close>

theorem C4_setters_all_or_nothing:
  "(fst (setTerrain t terrain' modifier') = None \<or> snd (setTerrain t terrain' modifier') = t)
   \<and> (fst (setFeature t feature') = None \<or> snd (setFeature t feature') = t)
   \<and> fst (setResource t resource') = None
   \<and> (fst (setDistrict t district') = None \<or> snd (setDistrict t district') = t)
   \<and> fst (setWonder t wonder') = None
   \<and> fst (setNaturalWonder t naturalWonder') = None
   \<and> (fst (setImprovement t improvement') = None \<or> snd (setImprovement t improvement') = t)
   \<and> (fst (addRiverEdge u edge) = None \<or> snd (addRiverEdge u edge) = u)
   \<and> fst (removeRiverEdge u edge) = None
   \<and> fst (setOwner t cityId isCityCenter') = None
   \<and> ((modifier' = MOUNTAIN \<or> modifier' = HILLS) \<and> (terrain' = COAST \<or> terrain' = OCEAN)
        \<longrightarrow> fst (setTerrain t terrain' modifier') \<noteq> None
          \<and> snd (setTerrain t terrain' modifier') = t)
   \<and> (fst (setTerrain t terrain' modifier') = None)
       = (\<not> ((modifier' = MOUNTAIN \<or> modifier' = HILLS) \<and> (terrain' = COAST \<or> terrain' = OCEAN)))
   \<and> (fst (setTerrain t terrain' modifier') = None \<longrightarrow>
          snd (setTerrain t terrain' modifier') = t\<lparr>terrain := terrain', modifier := modifier'\<rparr>)
   \<and> (fst (setFeature t feature') = None)
       = (feature' = FEATURE_NONE \<or> terrain t \<in> set (FEATURE_DATA_validTerrains feature'))
   \<and> (fst (setFeature t feature') = None \<longrightarrow>
          snd (setFeature t feature') = t\<lparr>feature := feature'\<rparr>)
   \<and> snd (setResource t resource') = t\<lparr>resource := resource'\<rparr>
   \<and> (fst (setDistrict t district') = None)
       = (district' = DISTRICT_NONE
          \<or> (modifier t \<noteq> MOUNTAIN
              \<and> (terrain t = COAST \<or> terrain t = OCEAN
                   \<longrightarrow> district' = HARBOR \<or> district' = WATER_PARK)))
   \<and> (fst (setDistrict t district') = None \<longrightarrow>
          snd (setDistrict t district')
            = (if district' = DISTRICT_NONE then t\<lparr>district := district'\<rparr>
               else t\<lparr>district := district', improvement := IMPROVEMENT_NONE,
                      feature := FEATURE_NONE\<rparr>))
   \<and> snd (setWonder t wonder')
       = (if wonder' = WONDER_NONE then t\<lparr>wonder := wonder'\<rparr>
          else t\<lparr>wonder := wonder', improvement := IMPROVEMENT_NONE\<rparr>)
   \<and> snd (setNaturalWonder t naturalWonder') = t\<lparr>naturalWonder := naturalWonder'\<rparr>
   \<and> (fst (setImprovement t improvement') = None)
       = (district t = DISTRICT_NONE \<and> wonder t = WONDER_NONE)
   \<and> (fst (setImprovement t improvement') = None \<longrightarrow>
          snd (setImprovement t improvement') = t\<lparr>improvement := improvement'\<rparr>)
   \<and> (fst (addRiverEdge u edge) = None) = (0 \<le> edge \<and> edge \<le> 5)
   \<and> (fst (addRiverEdge u edge) = None \<longrightarrow>
          snd (addRiverEdge u edge) = u\<lparr>riverEdges := Set_add (riverEdges u) edge\<rparr>
          \<and> set (riverEdges (snd (addRiverEdge u edge))) = insert edge (set (riverEdges u)))
   \<and> (snd (removeRiverEdge u edge) = u\<lparr>riverEdges := Set_delete (riverEdges u) edge\<rparr>
        \<and> set (riverEdges (snd (removeRiverEdge u edge))) = set (riverEdges u) - {edge})
   \<and> snd (setOwner t cityId isCityCenter')
       = (if isCityCenter'
          then t\<lparr>ownerCityId := cityId, isCityCenter := isCityCenter', district := CITY_CENTER\<rparr>
          else t\<lparr>ownerCityId := cityId, isCityCenter := isCityCenter'\<rparr>)"
  by (intro conjI setTerrain_aon setFeature_aon setDistrict_aon setImprovement_aon
        addRiverEdge_aon setters_never_throw setTerrain_on_water setTerrain_post
        setFeature_post setDistrict_post setImprovement_post addRiverEdge_post
        removeRiverEdge_post [THEN conjunct1] removeRiverEdge_post [THEN conjunct2]
        setters_total_post)

theorem C4_setters_all_or_nothing_witness:
  "fst (setTerrain (newTile (0, 0)) COAST MOUNTAIN) \<noteq> None
   \<and> snd (setTerrain (newTile (0, 0)) COAST MOUNTAIN) = newTile (0, 0)
   \<and> fst (setTerrain (newTile (0, 0)) PLAINS HILLS) = None
   \<and> snd (setTerrain (newTile (0, 0)) PLAINS HILLS)
       = (newTile (0, 0))\<lparr>terrain := PLAINS, modifier := HILLS\<rparr>
   \<and> fst (setFeature (newTile (0, 0)) REEF) \<noteq> None
   \<and> snd (setFeature (newTile (0, 0)) REEF) = newTile (0, 0)
   \<and> fst (setImprovement (newTile (0, 0)) MINE) = None
   \<and> snd (setImprovement (newTile (0, 0)) MINE) = (newTile (0, 0))\<lparr>improvement := MINE\<rparr>
   \<and> snd (setWonder (newTile (0, 0)) PYRAMIDS)
       = (newTile (0, 0))\<lparr>wonder := PYRAMIDS, improvement := IMPROVEMENT_NONE\<rparr>
   \<and> fst (addRiverEdge (newTile (0, 0)) 6) \<noteq> None
   \<and> snd (addRiverEdge (newTile (0, 0)) 6) = newTile (0, 0)
   \<and> fst (addRiverEdge (newTile (0, 0)) 5) = None
   \<and> set (riverEdges (snd (addRiverEdge (newTile (0, 0)) 5))) = {5}"
proof -
  have f: "terrain (newTile (0, 0)) = GRASS" "district (newTile (0, 0)) = DISTRICT_NONE"
    "wonder (newTile (0, 0)) = WONDER_NONE" "riverEdges (newTile (0, 0)) = []"
    by (simp_all add: newTile_def new_Tile_def)
  note fails = C4_setters_all_or_nothing [of "newTile (0, 0)" COAST MOUNTAIN REEF RESOURCE_NONE DISTRICT_NONE
      PYRAMIDS NATURAL_WONDER_NONE MINE "newTile (0, 0)" 6 None False]
  note succeeds = C4_setters_all_or_nothing [of "newTile (0, 0)" PLAINS HILLS FEATURE_NONE RESOURCE_NONE
      DISTRICT_NONE WONDER_NONE NATURAL_WONDER_NONE IMPROVEMENT_NONE "newTile (0, 0)" 5
      None False]
  from fails have a: "fst (setTerrain (newTile (0, 0)) COAST MOUNTAIN) \<noteq> None
     \<and> snd (setTerrain (newTile (0, 0)) COAST MOUNTAIN) = newTile (0, 0)
     \<and> fst (setFeature (newTile (0, 0)) REEF) \<noteq> None
     \<and> fst (setImprovement (newTile (0, 0)) MINE) = None
     \<and> snd (setImprovement (newTile (0, 0)) MINE) = (newTile (0, 0))\<lparr>improvement := MINE\<rparr>
     \<and> snd (setWonder (newTile (0, 0)) PYRAMIDS)
         = (newTile (0, 0))\<lparr>wonder := PYRAMIDS, improvement := IMPROVEMENT_NONE\<rparr>
     \<and> fst (addRiverEdge (newTile (0, 0)) 6) \<noteq> None"
    by (simp add: f)
  from fails have d1: "fst (setFeature (newTile (0, 0)) REEF) = None
     \<or> snd (setFeature (newTile (0, 0)) REEF) = newTile (0, 0)"
    by (elim conjE)
  from fails have d2: "fst (addRiverEdge (newTile (0, 0)) 6) = None
     \<or> snd (addRiverEdge (newTile (0, 0)) 6) = newTile (0, 0)"
    by (elim conjE)
  from succeeds have b: "fst (setTerrain (newTile (0, 0)) PLAINS HILLS) = None
     \<and> snd (setTerrain (newTile (0, 0)) PLAINS HILLS)
         = (newTile (0, 0))\<lparr>terrain := PLAINS, modifier := HILLS\<rparr>
     \<and> fst (addRiverEdge (newTile (0, 0)) 5) = None
     \<and> set (riverEdges (snd (addRiverEdge (newTile (0, 0)) 5))) = {5}"
    by (simp add: f Set_add_def)
  from a d1 have s1: "snd (setFeature (newTile (0, 0)) REEF) = newTile (0, 0)"
    by (elim conjE disjE) simp_all
  from a d2 have s2: "snd (addRiverEdge (newTile (0, 0)) 6) = newTile (0, 0)"
    by (elim conjE disjE) simp_all
  from a b s1 s2 show ?thesis by simp
qed

text \<open>
  C7.  The claim: no cell reachable from a fresh cell by successful setter calls has a
  district on a Mountain.  Two sequences of successful calls reach such a cell:
  \<^verbatim>\<open>setOwner\<close> with \<^verbatim>\<open>isCityCenter = true\<close> assigns the City Center district without the
  check that \<^verbatim>\<open>setDistrict\<close> makes (which rejects the same district on the same cell), and
  \<^verbatim>\<open>setTerrain\<close> puts a Mountain under a district that is already there.
\<close>

theorem C7_district_on_mountain_reached:
  "apply_calls (newTile (0, 0)) [SetTerrain GRASS MOUNTAIN, SetOwner (Some ''city1'') True]
     = Some ((newTile (0, 0))\<lparr>modifier := MOUNTAIN, district := CITY_CENTER,
               ownerCityId := Some ''city1'', isCityCenter := True\<rparr>)
   \<and> apply_calls (newTile (0, 0)) [SetTerrain GRASS MOUNTAIN, SetDistrict CITY_CENTER] = None
   \<and> fst (setDistrict ((newTile (0, 0))\<lparr>modifier := MOUNTAIN\<rparr>) CITY_CENTER)
       = Some (Error ''Districts cannot be placed on mountains'')
   \<and> apply_calls (newTile (0, 0)) [SetDistrict CAMPUS, SetTerrain GRASS MOUNTAIN]
       = Some ((newTile (0, 0))\<lparr>modifier := MOUNTAIN, district := CAMPUS\<rparr>)"
  by (simp add: setter_defs newTile_def new_Tile_def)

section \<open>Properties of the grid\<close>

subsection \<open>Writing to the Map\<close>

lemma update_fresh: "k \<notin> fst ` set al \<Longrightarrow> AList.update k v al = al @ [(k, v)]"
  by (induction al) auto

lemma fold_update_fresh:
  "distinct (map fst kvs) \<Longrightarrow> fst ` set kvs \<inter> fst ` set al = {}
   \<Longrightarrow> fold (\<lambda>kv al. AList.update (fst kv) (snd kv) al) kvs al = al @ kvs"
proof (induction kvs arbitrary: al)
  case Nil
  then show ?case by simp
next
  case (Cons kv kvs)
  from Cons.prems have fresh: "fst kv \<notin> fst ` set al" by auto
  then have u: "AList.update (fst kv) (snd kv) al = al @ [kv]" by (simp add: update_fresh)
  from Cons.prems have "fst ` set kvs \<inter> fst ` set (al @ [kv]) = {}" by auto
  with Cons.prems Cons.IH [of "al @ [kv]"] u show ?case by simp
qed

lemma fold_tiles:
  "fold (\<lambda>x g. g\<lparr>tiles := F x (tiles g)\<rparr>) xs g = g\<lparr>tiles := fold F xs (tiles g)\<rparr>"
  by (induction xs arbitrary: g) simp_all

lemma fold_tiles_width:
  "fold (\<lambda>x g. g\<lparr>tiles := F x (width g) (tiles g)\<rparr>) xs g
     = g\<lparr>tiles := fold (\<lambda>x. F x (width g)) xs (tiles g)\<rparr>"
  by (induction xs arbitrary: g) simp_all

lemma fold_rows:
  "fold (\<lambda>r. fold (\<lambda>q. U (q, r)) (qs r)) rs al
     = fold U (concat (map (\<lambda>r. map (\<lambda>q. (q, r)) (qs r)) rs)) al"
  by (induction rs arbitrary: al) (simp_all add: fold_map comp_def)

subsection \<open>The initial grid\<close>

lemma distinct_rows:
  "distinct rs \<Longrightarrow> (\<And>r. distinct (qs r))
   \<Longrightarrow> distinct (concat (map (\<lambda>r. map (\<lambda>q. (q, r)) (qs r)) rs))"
  by (induction rs) (auto simp add: distinct_map inj_on_def)

lemma distinct_region_coords: "distinct (region_coords w h)"
  unfolding region_coords_def by (rule distinct_rows) simp_all

lemma set_region_coords:
  "set (region_coords w h) = {(q, r). 0 \<le> r \<and> r < h \<and> - (r div 2) \<le> q \<and> q < w - r div 2}"
  unfolding region_coords_def by auto

lemma initializeEmptyMap_tiles:
  "initializeEmptyMap g =
     g\<lparr>tiles := fold (\<lambda>c. AList.update (coordToKey c) (newTile c))
                  (region_coords (width g) (height g)) (tiles g)\<rparr>"
proof -
  have inner: "\<And>r qs g'.
      fold (\<lambda>q g. g\<lparr>tiles := AList.update (coordToKey (q, r)) (newTile (q, r)) (tiles g)\<rparr>)
        qs g'
      = g'\<lparr>tiles := fold (\<lambda>q. AList.update (coordToKey (q, r)) (newTile (q, r)))
                         qs (tiles g')\<rparr>"
    by (rule fold_tiles)
  have "initializeEmptyMap g =
      fold (\<lambda>r g. g\<lparr>tiles := fold (\<lambda>q. AList.update (coordToKey (q, r)) (newTile (q, r)))
                                [- (r div 2) .. width g - r div 2 - 1] (tiles g)\<rparr>)
        [0 .. height g - 1] g"
    unfolding initializeEmptyMap_def Let_def Map_set_def inner ..
  also have "\<dots> = g\<lparr>tiles := fold (\<lambda>r. fold (\<lambda>q. AList.update (coordToKey (q, r)) (newTile (q, r)))
                                [- (r div 2) .. width g - r div 2 - 1])
                         [0 .. height g - 1] (tiles g)\<rparr>"
    by (rule fold_tiles_width
         [where F = "\<lambda>r w. fold (\<lambda>q. AList.update (coordToKey (q, r)) (newTile (q, r)))
                                [- (r div 2) .. w - r div 2 - 1]"])
  also have "\<dots> = g\<lparr>tiles := fold (\<lambda>c. AList.update (coordToKey c) (newTile c))
                  (region_coords (width g) (height g)) (tiles g)\<rparr>"
    unfolding region_coords_def
    by (simp only: fold_rows [where U = "\<lambda>c. AList.update (coordToKey c) (newTile c)"])
  finally show ?thesis .
qed

lemma new_GameMap_eq:
  "new_GameMap w h n =
     \<lparr>tiles = map (\<lambda>c. (coordToKey c, newTile c)) (region_coords w h),
      width = w, height = h, name = n\<rparr>"
proof -
  let ?kvs = "map (\<lambda>c. (coordToKey c, newTile c)) (region_coords w h)"
  have d: "distinct (map fst ?kvs)"
    by (simp add: comp_def distinct_map distinct_region_coords inj_on_def)
  have "fold (\<lambda>c. AList.update (coordToKey c) (newTile c)) (region_coords w h) []
      = fold (\<lambda>kv al. AList.update (fst kv) (snd kv) al) ?kvs []"
    by (simp add: fold_map comp_def)
  also have "\<dots> = [] @ ?kvs" using d by (intro fold_update_fresh) simp_all
  finally show ?thesis
    by (simp add: new_GameMap_def initializeEmptyMap_tiles)
qed

lemma getAllTiles_new_GameMap:
  "getAllTiles (new_GameMap w h n) = map newTile (region_coords w h)"
  by (simp add: new_GameMap_eq getAllTiles_def comp_def)

lemma coord_newTile [simp]: "coord (newTile c) = c"
  by (simp add: newTile_def new_Tile_def)

lemma map_of_keyed:
  "map_of (map (\<lambda>c. (coordToKey c, f c)) cs) (coordToKey c) = (if c \<in> set cs then Some (f c) else None)"
  by (induction cs) auto

lemma getTile_new_GameMap:
  "getTile (new_GameMap w h n) c = (if c \<in> set (region_coords w h) then Some (newTile c) else None)"
  by (simp add: new_GameMap_eq getTile_def Map_get_def map_of_keyed)

text \<open>
  C8.  A fresh grid of any width and height has exactly one cell for each coordinate
  \<open>(q, r)\<close> with \<open>0 \<le> r < height\<close> and \<open>-floor(r/2) \<le> q < width - floor(r/2)\<close>: the
  coordinates of its cells are pairwise distinct and are exactly that region.  Looking a
  coordinate of the region up finds a cell with Grass terrain, Flat modifier and every
  other field at its none or empty value; looking any other coordinate up finds nothing.
\<close>

theorem C8_initial_grid:
  "distinct (map coord (getAllTiles (new_GameMap w h n)))
   \<and> set (map coord (getAllTiles (new_GameMap w h n)))
       = {(q, r). 0 \<le> r \<and> r < h \<and> - (r div 2) \<le> q \<and> q < w - r div 2}
   \<and> getTile (new_GameMap w h n) (q, r) =
       (if 0 \<le> r \<and> r < h \<and> - (r div 2) \<le> q \<and> q < w - r div 2
        then Some \<lparr>coord = (q, r), terrain = GRASS, modifier = FLAT, feature = FEATURE_NONE,
               resource = RESOURCE_NONE, district = DISTRICT_NONE, wonder = WONDER_NONE,
               naturalWonder = NATURAL_WONDER_NONE, improvement = IMPROVEMENT_NONE,
               riverEdges = [], ownerCityId = None, isCityCenter = False\<rparr>
        else None)"
proof -
  have m: "map coord (getAllTiles (new_GameMap w h n)) = region_coords w h"
    by (simp add: getAllTiles_new_GameMap comp_def)
  show ?thesis
    unfolding m getTile_new_GameMap
    by (simp add: distinct_region_coords set_region_coords newTile_def new_Tile_def)
qed

theorem C8_initial_grid_witness:
  "getTile (new_GameMap 2 3 ''m'') (-1, 2) = Some (newTile (-1, 2))
   \<and> getTile (new_GameMap 2 3 ''m'') (1, 2) = None
   \<and> getTile (new_GameMap 2 3 ''m'') (0, 3) = None"
  using C8_initial_grid [of 2 3 "''m''" "-1" 2] C8_initial_grid [of 2 3 "''m''" 1 2]
    C8_initial_grid [of 2 3 "''m''" 0 3]
  by (simp add: newTile_def new_Tile_def)

subsection \<open>Well-formed cells and grids\<close>

lemma Set_add_distinct: "distinct s \<Longrightarrow> distinct (Set_add s x)"
  by (simp add: Set_add_def)

lemma Set_delete_distinct: "distinct s \<Longrightarrow> distinct (Set_delete s x)"
  by (simp add: Set_delete_def distinct_removeAll)

lemma fold_Set_add_fresh:
  "distinct (s @ xs) \<Longrightarrow> fold (\<lambda>x s. Set_add s x) xs s = s @ xs"
proof (induction xs arbitrary: s)
  case Nil
  then show ?case by simp
next
  case (Cons x xs)
  from Cons.prems have "Set_add s x = s @ [x]" by (simp add: Set_add_def)
  with Cons.prems Cons.IH [of "s @ [x]"] show ?case by simp
qed



lemma Set_new_of_Set: "distinct s \<Longrightarrow> Set_new s = s"
  using fold_Set_add_fresh [of "[]" s] by (simp add: Set_new_def)

lemma wf_Tile_newTile: "wf_Tile (newTile c)"
  by (simp add: wf_Tile_def newTile_def new_Tile_def)


lemma coord_fromJSON: "coord (Tile_fromJSON d) = td_coord d"
  by (simp add: Tile_fromJSON_def)

lemma apply_call_coord: "coord (snd (apply_call t c)) = coord t"
  by (cases c) (simp_all add: setter_defs Let_def)

lemma apply_call_wf: "wf_Tile t \<Longrightarrow> wf_Tile (snd (apply_call t c))"
  by (cases c)
     (simp_all add: setter_defs Let_def wf_Tile_def Set_add_distinct Set_delete_distinct)

lemma Tile_roundtrip: "wf_Tile t \<Longrightarrow> Tile_fromJSON (Tile_toJSON t) = t"
  by (simp add: Tile_fromJSON_def Tile_toJSON_def newTile_def new_Tile_def wf_Tile_def
        Set_new_of_Set)

lemma wf_new_GameMap: "wf_GameMap (new_GameMap w h n)"
  by (simp add: wf_GameMap_def new_GameMap_eq comp_def distinct_map distinct_region_coords
        inj_on_def list_all_iff wf_Tile_newTile)

lemma set_update_subset: "set (AList.update k v al) \<subseteq> insert (k, v) (set al)"
  by (induction al) auto

lemma wf_setTile: "wf_GameMap g \<Longrightarrow> wf_Tile t \<Longrightarrow> wf_GameMap (setTile g t)"
  using set_update_subset [of "coordToKey (coord t)" t "tiles g"]
  by (auto simp add: wf_GameMap_def setTile_def Map_set_def distinct_update list_all_iff)

subsection \<open>Loading a snapshot\<close>

lemma GameMap_fromJSON_eq:
  "GameMap_fromJSON d =
     \<lparr>tiles = fold (\<lambda>td. AList.update (coordToKey (td_coord td)) (Tile_fromJSON td))
                (gm_tiles d) [],
      width = gm_width d, height = gm_height d, name = gm_name d\<rparr>"
proof -
  have "GameMap_fromJSON d =
      fold (\<lambda>td m. m\<lparr>tiles := AList.update (coordToKey (td_coord td)) (Tile_fromJSON td)
                                (tiles m)\<rparr>)
        (gm_tiles d) \<lparr>tiles = [], width = gm_width d, height = gm_height d, name = gm_name d\<rparr>"
    by (simp add: GameMap_fromJSON_def Let_def Map_set_def coord_fromJSON new_GameMap_eq)
  also have "\<dots> = \<lparr>tiles = [], width = gm_width d, height = gm_height d, name = gm_name d\<rparr>
      \<lparr>tiles := fold (\<lambda>td. AList.update (coordToKey (td_coord td)) (Tile_fromJSON td))
                 (gm_tiles d) []\<rparr>"
    by (simp add: fold_tiles
         [where F = "\<lambda>td. AList.update (coordToKey (td_coord td)) (Tile_fromJSON td)"])
  finally show ?thesis by simp
qed





text \<open>
  C5.  For every well-formed grid (every grid that the class can hold, see \<open>wf_GameMap\<close>)
  deserializing the snapshot of the grid gives the grid back: the same name, width and
  height and the same entries in the same order, so the same coordinates and, at every
  coordinate, a cell with the same terrain, modifier, feature, resource, district, wonder,
  natural wonder, improvement, owner, city-center flag and river edges (the same members,
  and in the same order).
\<close>

theorem C5_snapshot_roundtrip:
  assumes "wf_GameMap g"
  shows "GameMap_fromJSON (GameMap_toJSON g) = g
    \<and> map coord (getAllTiles (GameMap_fromJSON (GameMap_toJSON g))) = map coord (getAllTiles g)
    \<and> getTile (GameMap_fromJSON (GameMap_toJSON g)) c = getTile g c"
proof -
  from assms have d: "distinct (map fst (tiles g))"
    and k: "\<And>kv. kv \<in> set (tiles g) \<Longrightarrow> fst kv = coordToKey (coord (snd kv)) \<and> wf_Tile (snd kv)"
    by (auto simp add: wf_GameMap_def list_all_iff)
  have "fold (\<lambda>td. AList.update (coordToKey (td_coord td)) (Tile_fromJSON td))
          (map Tile_toJSON (map snd (tiles g))) []
      = fold (\<lambda>kv al. AList.update (fst kv) (snd kv) al) (tiles g) []"
    unfolding fold_map
    by (rule fold_cong) (auto simp add: k Tile_roundtrip Tile_toJSON_def [THEN arg_cong, of td_coord])
  also have "\<dots> = [] @ tiles g" using d by (intro fold_update_fresh) simp_all
  finally have "GameMap_fromJSON (GameMap_toJSON g) = g"
    by (simp add: GameMap_fromJSON_eq GameMap_toJSON_def getAllTiles_def)
  then show ?thesis by simp
qed

theorem C5_snapshot_roundtrip_witness:
  "wf_GameMap (setTile (new_GameMap 2 2 ''m'') (snd (apply_call (newTile (1, 1)) (AddRiverEdge 3))))
   \<and> GameMap_fromJSON (GameMap_toJSON
        (setTile (new_GameMap 2 2 ''m'') (snd (apply_call (newTile (1, 1)) (AddRiverEdge 3)))))
      = setTile (new_GameMap 2 2 ''m'') (snd (apply_call (newTile (1, 1)) (AddRiverEdge 3)))"
proof -
  have h: "wf_GameMap (setTile (new_GameMap 2 2 ''m'')
             (snd (apply_call (newTile (1, 1)) (AddRiverEdge 3))))"
    by (intro wf_setTile wf_new_GameMap apply_call_wf wf_Tile_newTile)
  from h C5_snapshot_roundtrip [OF h] show ?thesis by simp
qed



section \<open>Properties of the adjacency engine\<close>

lemma in_getHexesInRange: "x \<in> set (getHexesInRange c n) \<longleftrightarrow> distance c x \<le> n"
proof
  assume "x \<in> set (getHexesInRange c n)"
  then obtain q r where "- n \<le> q" "q \<le> n" "max (- n) (- q - n) \<le> r" "r \<le> min n (- q + n)"
    and x: "x = (fst c + q, snd c + r)"
    by (auto simp add: getHexesInRange_def)
  then show "distance c x \<le> n" by (simp add: distance_def x) linarith
next
  assume d: "distance c x \<le> n"
  let ?q = "fst x - fst c" and ?r = "snd x - snd c"
  from d have b: "- n \<le> ?q \<and> ?q \<le> n \<and> max (- n) (- ?q - n) \<le> ?r \<and> ?r \<le> min n (- ?q + n)"
    by (simp add: distance_def) linarith
  have "x = (fst c + ?q, snd c + ?r)" by simp
  with b have "\<exists>q\<in>{- n..n}. x \<in> (\<lambda>r. (fst c + q, snd c + r)) ` {max (- n) (- q - n)..min n (- q + n)}"
    by (intro bexI [of _ ?q] image_eqI [of _ _ ?r]) simp_all
  then show "x \<in> set (getHexesInRange c n)" by (simp add: getHexesInRange_def)
qed

subsection \<open>Lookup in a well-formed grid\<close>

lemma getTile_coord: "wf_GameMap g \<Longrightarrow> getTile g c = Some t \<Longrightarrow> coord t = c"
proof -
  assume wf: "wf_GameMap g" and "getTile g c = Some t"
  then have "(coordToKey c, t) \<in> set (tiles g)"
    by (auto simp add: getTile_def Map_get_def dest: map_of_SomeD)
  with wf have "coordToKey c = coordToKey (coord t)"
    by (auto simp add: wf_GameMap_def list_all_iff)
  then show ?thesis by simp
qed

lemma set_map_filter: "set (List.map_filter f xs) = {y. \<exists>x\<in>set xs. f x = Some y}"
  by (induction xs) (auto simp add: List.map_filter_simps split: option.splits)

lemma map_coord_map_filter:
  assumes "wf_GameMap g"
  shows "map coord (filter P (List.map_filter (getTile g) cs))
    = filter (\<lambda>c. case getTile g c of None \<Rightarrow> False | Some t \<Rightarrow> P t) cs"
proof (induction cs)
  case Nil
  show ?case by (simp add: List.map_filter_simps)
next
  case (Cons c cs)
  show ?case
  proof (cases "getTile g c")
    case None
    with Cons show ?thesis by (simp add: List.map_filter_simps)
  next
    case (Some t)
    from getTile_coord [OF assms Some] Some Cons show ?thesis by (simp add: List.map_filter_simps)
  qed
qed

lemma validTiles_coords:
  "wf_GameMap g \<Longrightarrow> map coord (validTiles g cc d) = filter (placeable g d) (getHexesInRange cc 3)"
  unfolding validTiles_def getTilesInRange_def
  by (subst map_coord_map_filter) (simp_all add: placeable_def [abs_def] eligible_def cong: option.case_cong)

lemma validTiles_member:
  assumes "wf_GameMap g" "t \<in> set (validTiles g cc d)"
  shows "getTile g (coord t) = Some t \<and> eligible d t \<and> distance cc (coord t) \<le> 3"
proof -
  from assms(2) obtain c where c: "c \<in> set (getHexesInRange cc 3)" "getTile g c = Some t"
    and e: "eligible d t"
    by (auto simp add: validTiles_def getTilesInRange_def set_map_filter eligible_def)
  from assms(1) c(2) have "coord t = c" by (rule getTile_coord)
  with c e show ?thesis by (simp add: in_getHexesInRange)
qed

subsection \<open>The search loop\<close>

lemma first_maximum_Cons_keep:
  "\<forall>x\<in>set xs. s x \<le> s x0 \<Longrightarrow> first_maximum s (x0 # xs) 0"
  by (simp add: first_maximum_def list_all_iff)

lemma first_maximum_Cons_later:
  "first_maximum s xs i \<Longrightarrow> s x0 < s (xs ! i) \<Longrightarrow> first_maximum s (x0 # xs) (Suc i)"
  by (simp add: first_maximum_def)

text \<open>
  The loop started with a running best \<open>bestTotal\<close>: either no candidate beats it and the
  running result is returned, or the result is the first candidate with the greatest
  total, and that total beats it.
\<close>

lemma findBest_loop_char:
  assumes "\<forall>t\<in>set ts. calculatePotentialAdjacency g (coord t) d \<noteq> None"
  shows "(findBest_loop g d ts bestResult bestTotal = bestResult
          \<and> (\<forall>t\<in>set ts. \<not> greater_than_best (placement_score g d (coord t)) bestTotal))
       \<or> (\<exists>i. first_maximum (placement_score g d) (map coord ts) i
             \<and> greater_than_best (placement_score g d (coord (ts ! i))) bestTotal
             \<and> findBest_loop g d ts bestResult bestTotal
                 = Some (coord (ts ! i), the (calculatePotentialAdjacency g (coord (ts ! i)) d)))"
  using assms
proof (induction ts arbitrary: bestResult bestTotal)
  case Nil
  then show ?case by simp
next
  case (Cons t ts)
  let ?s = "placement_score g d"
  from Cons.prems obtain res where res: "calculatePotentialAdjacency g (coord t) d = Some res"
    by auto
  have sc: "?s (coord t) = (case primaryYieldType (DISTRICT_DATA d) of
       Some primary \<Rightarrow> yield_get (totalBonus res) primary | None \<Rightarrow> 0)"
    by (simp add: placement_score_def res)
  from Cons.prems have rest: "\<forall>t\<in>set ts. calculatePotentialAdjacency g (coord t) d \<noteq> None"
    by simp
  show ?case
  proof (cases "greater_than_best (?s (coord t)) bestTotal")
    case True
    then have step: "findBest_loop g d (t # ts) bestResult bestTotal
        = findBest_loop g d ts (Some (coord t, res)) (Some (?s (coord t)))"
      by (simp add: res sc Let_def)
    from Cons.IH [OF rest, of "Some (coord t, res)" "Some (?s (coord t))"]
    show ?thesis
    proof (elim disjE conjE exE)
      assume r: "findBest_loop g d ts (Some (coord t, res)) (Some (?s (coord t))) = Some (coord t, res)"
        and n: "\<forall>t'\<in>set ts. \<not> greater_than_best (?s (coord t')) (Some (?s (coord t)))"
      from n have "\<forall>c\<in>set (map coord ts). ?s c \<le> ?s (coord t)"
        by (auto simp add: greater_than_best_def)
      then have "first_maximum ?s (map coord (t # ts)) 0"
        using first_maximum_Cons_keep [of "map coord ts" ?s "coord t"] by simp
      with True r step res show ?thesis by (intro disjI2 exI [of _ 0]) simp
    next
      fix i
      assume f: "first_maximum ?s (map coord ts) i"
        and gt: "greater_than_best (?s (coord (ts ! i))) (Some (?s (coord t)))"
        and r: "findBest_loop g d ts (Some (coord t, res)) (Some (?s (coord t)))
                 = Some (coord (ts ! i), the (calculatePotentialAdjacency g (coord (ts ! i)) d))"
      from f have il: "i < length ts" by (simp add: first_maximum_def)
      from gt have lt: "?s (coord t) < ?s (coord (ts ! i))" by (simp add: greater_than_best_def)
      with f il have "first_maximum ?s (map coord (t # ts)) (Suc i)"
        using first_maximum_Cons_later [of ?s "map coord ts" i "coord t"] by simp
      moreover from True lt have "greater_than_best (?s (coord (ts ! i))) bestTotal"
        by (auto simp add: greater_than_best_def split: option.splits)
      ultimately show ?thesis using r step by (intro disjI2 exI [of _ "Suc i"]) simp
    qed
  next
    case False
    then have step: "findBest_loop g d (t # ts) bestResult bestTotal
        = findBest_loop g d ts bestResult bestTotal"
      by (simp add: res sc Let_def)
    from False obtain b where b: "bestTotal = Some b" "?s (coord t) \<le> b"
      by (auto simp add: greater_than_best_def split: option.splits)
    from Cons.IH [OF rest, of bestResult bestTotal]
    show ?thesis
    proof (elim disjE conjE exE)
      assume "findBest_loop g d ts bestResult bestTotal = bestResult"
        and "\<forall>t'\<in>set ts. \<not> greater_than_best (?s (coord t')) bestTotal"
      with False step show ?thesis by (intro disjI1) simp
    next
      fix i
      assume f: "first_maximum ?s (map coord ts) i"
        and gt: "greater_than_best (?s (coord (ts ! i))) bestTotal"
        and r: "findBest_loop g d ts bestResult bestTotal
                 = Some (coord (ts ! i), the (calculatePotentialAdjacency g (coord (ts ! i)) d))"
      from f have il: "i < length ts" by (simp add: first_maximum_def)
      from gt b have lt: "?s (coord t) < ?s (coord (ts ! i))" by (simp add: greater_than_best_def)
      with f il have "first_maximum ?s (map coord (t # ts)) (Suc i)"
        using first_maximum_Cons_later [of ?s "map coord ts" i "coord t"] by simp
      with gt r step show ?thesis by (intro disjI2 exI [of _ "Suc i"]) simp
    qed
  qed
qed

lemma wf_city_grid: "wf_GameMap city_grid"
  unfolding city_grid_def
  by (intro wf_setTile wf_new_GameMap) (simp add: wf_Tile_def setOwner_def newTile_def new_Tile_def)

text \<open>
  C3, the order of the tie-break.  The claim: among tied candidates the search returns the
  one that comes first in grid-iteration order.  The grid iterates its cells in the order
  of \<^verbatim>\<open>getAllTiles\<close> (the order of its \<^verbatim>\<open>Map\<close>, rows first), and the search does not walk
  the grid in that order.  In \<open>city_grid\<close> the three cells other than the city center are
  eligible for a Campus, lie within range 3 of the city center and all score 0; the first
  of them in the grid's order is \<open>(1, 0)\<close>, and the search returns \<open>(0, 1)\<close>.
\<close>

theorem C3_first_in_grid_order_not_returned:
  "map coord (getAllTiles city_grid) = [(0, 0), (1, 0), (0, 1), (1, 1)]
   \<and> map coord (filter (eligible CAMPUS) (getAllTiles city_grid)) = [(1, 0), (0, 1), (1, 1)]
   \<and> map (distance (0, 0)) [(1, 0), (0, 1), (1, 1)] = [1, 1, 2]
   \<and> map (placement_score city_grid CAMPUS) [(1, 0), (0, 1), (1, 1)] = [0, 0, 0]
   \<and> map_option fst (findBestDistrictPlacement city_grid (0, 0) CAMPUS) = Some (0, 1)"
  by code_simp

text \<open>
  C3, as the code has it.  In a well-formed grid the candidates are the coordinates of
  \<^verbatim>\<open>getHexesInRange(cityCenter, 3)\<close>, in the order of that enumeration (the column offset
  ascending from -3 to 3 and, within a column, the row offset ascending), that hold a cell
  which has no district, is no Mountain and passes \<^verbatim>\<open>canPlaceDistrict\<close>.  The search
  reports not-found exactly when there is no candidate.  A coordinate that it returns
  holds a cell of the grid that is no Mountain, has no district and passes the district's
  terrain test, lies within distance 3 of the city center, comes with its potential
  adjacency, and is the first candidate of the list whose primary-yield total is the
  greatest.
\<close>

theorem C3_best_placement:
  assumes "wf_GameMap g"
  shows "map coord (validTiles g cc d) = filter (placeable g d) (getHexesInRange cc 3)
    \<and> (findBestDistrictPlacement g cc d = None \<longleftrightarrow> validTiles g cc d = [])
    \<and> (\<forall>c res. findBestDistrictPlacement g cc d = Some (c, res) \<longrightarrow>
          (\<exists>t. getTile g c = Some t \<and> \<not> isMountain t \<and> \<not> hasDistrict t \<and> canPlaceDistrict t d)
          \<and> distance cc c \<le> 3
          \<and> calculatePotentialAdjacency g c d = Some res
          \<and> (\<exists>i. first_maximum (placement_score g d) (map coord (validTiles g cc d)) i
                 \<and> map coord (validTiles g cc d) ! i = c))"
proof -
  let ?ts = "validTiles g cc d"
  have mem: "\<And>t. t \<in> set ?ts \<Longrightarrow>
      getTile g (coord t) = Some t \<and> eligible d t \<and> distance cc (coord t) \<le> 3"
    using assms by (rule validTiles_member)
  then have some: "\<forall>t\<in>set ?ts. calculatePotentialAdjacency g (coord t) d \<noteq> None"
    by (simp add: calculatePotentialAdjacency_def)
  have gt: "\<And>x. greater_than_best x None" by (simp add: greater_than_best_def)
  from findBest_loop_char [OF some, of None None]
  have "(findBestDistrictPlacement g cc d = None \<and> ?ts = [])
      \<or> (\<exists>i. first_maximum (placement_score g d) (map coord ?ts) i
            \<and> findBestDistrictPlacement g cc d
                = Some (coord (?ts ! i), the (calculatePotentialAdjacency g (coord (?ts ! i)) d)))"
    unfolding findBestDistrictPlacement_def
  proof (elim disjE conjE exE)
    assume r: "findBest_loop g d ?ts None None = None"
      and n: "\<forall>t\<in>set ?ts. \<not> greater_than_best (placement_score g d (coord t)) None"
    from n gt have "?ts = []" by (cases ?ts) auto
    with r show "(findBest_loop g d ?ts None None = None \<and> ?ts = []) \<or>
      (\<exists>i. first_maximum (placement_score g d) (map coord ?ts) i
            \<and> findBest_loop g d ?ts None None
                = Some (coord (?ts ! i), the (calculatePotentialAdjacency g (coord (?ts ! i)) d)))"
      by simp
  next
    fix i
    assume "first_maximum (placement_score g d) (map coord ?ts) i"
      and "findBest_loop g d ?ts None None
             = Some (coord (?ts ! i), the (calculatePotentialAdjacency g (coord (?ts ! i)) d))"
    then show "(findBest_loop g d ?ts None None = None \<and> ?ts = []) \<or>
      (\<exists>i. first_maximum (placement_score g d) (map coord ?ts) i
            \<and> findBest_loop g d ?ts None None
                = Some (coord (?ts ! i), the (calculatePotentialAdjacency g (coord (?ts ! i)) d)))"
      by blast
  qed
  then have main: "(findBestDistrictPlacement g cc d = None \<and> ?ts = [])
      \<or> (\<exists>i. i < length ?ts \<and> first_maximum (placement_score g d) (map coord ?ts) i
            \<and> findBestDistrictPlacement g cc d
                = Some (coord (?ts ! i), the (calculatePotentialAdjacency g (coord (?ts ! i)) d)))"
    by (auto simp add: first_maximum_def)
  have none: "findBestDistrictPlacement g cc d = None \<longleftrightarrow> ?ts = []"
    using main by (auto simp add: findBestDistrictPlacement_def)
  have found: "(\<exists>t. getTile g c = Some t \<and> \<not> isMountain t \<and> \<not> hasDistrict t \<and> canPlaceDistrict t d)
          \<and> distance cc c \<le> 3
          \<and> calculatePotentialAdjacency g c d = Some res
          \<and> (\<exists>i. first_maximum (placement_score g d) (map coord ?ts) i \<and> map coord ?ts ! i = c)"
    if f: "findBestDistrictPlacement g cc d = Some (c, res)" for c res
  proof -
    from main f obtain i where i: "i < length ?ts"
      and fm: "first_maximum (placement_score g d) (map coord ?ts) i"
      and c: "c = coord (?ts ! i)"
      and res: "res = the (calculatePotentialAdjacency g (coord (?ts ! i)) d)"
      by auto
    from i have "?ts ! i \<in> set ?ts" by simp
    from mem [OF this] have m: "getTile g c = Some (?ts ! i)" "eligible d (?ts ! i)"
      "distance cc c \<le> 3"
      by (simp_all add: c)
    from m(1) have "calculatePotentialAdjacency g c d \<noteq> None"
      by (simp add: calculatePotentialAdjacency_def)
    with res c have "calculatePotentialAdjacency g c d = Some res" by auto
    moreover from i c have "map coord ?ts ! i = c" by simp
    ultimately show ?thesis using m fm by (auto simp add: eligible_def)
  qed
  from validTiles_coords [OF assms] none found show ?thesis by blast
qed

theorem C3_best_placement_witness:
  "wf_GameMap city_grid
   \<and> findBestDistrictPlacement city_grid (0, 0) CAMPUS
       = Some ((0, 1), the (calculatePotentialAdjacency city_grid (0, 1) CAMPUS))
   \<and> distance (0, 0) (0, 1) \<le> 3
   \<and> (\<exists>i. first_maximum (placement_score city_grid CAMPUS)
             (map coord (validTiles city_grid (0, 0) CAMPUS)) i
          \<and> map coord (validTiles city_grid (0, 0) CAMPUS) ! i = (0, 1))"
proof -
  have e: "findBestDistrictPlacement city_grid (0, 0) CAMPUS
       = Some ((0, 1), the (calculatePotentialAdjacency city_grid (0, 1) CAMPUS))"
    by code_simp
  from C3_best_placement [OF wf_city_grid, of "(0, 0)" CAMPUS] e wf_city_grid
  show ?thesis by blast
qed

lemma count_none: "\<forall>n\<in>set ns. \<not> P n \<Longrightarrow> count P ns = 0"
  by (simp add: count_def)

lemma list_ex_none: "\<forall>n\<in>set ns. \<not> P n \<Longrightarrow> \<not> list_ex P ns"
  by (simp add: list_ex_iff)

text \<open>
  C2.  A Commercial Hub cell whose existing neighbours include exactly 3 cells with a
  district, none of them a Harbor or a Government Plaza, has a total adjacency bonus of
  gold only: 1 (the floor of 3/2) if the cell's own set of river edges is empty, and
  3 (a flat 2 for the river, however many river edges, plus 1) otherwise.
\<close>

theorem C2_commercial_hub_gold:
  assumes "district tile = COMMERCIAL_HUB"
    and "count hasDistrict (getNeighborTiles g (coord tile)) = 3"
    and "\<forall>n\<in>set (getNeighborTiles g (coord tile)).
           district n \<noteq> HARBOR \<and> district n \<noteq> GOVERNMENT_PLAZA"
  shows "totalBonus (calculateDistrictAdjacency g tile)
           = EMPTY_YIELDS\<lparr>gold := (if riverEdges tile = [] then 1 else 3)\<rparr>
    \<and> gold (totalBonus (calculateDistrictAdjacency g tile))
           = (if riverEdges tile = [] then 3 div 2 else 2 + 1)"
proof -
  let ?ns = "getNeighborTiles g (coord tile)"
  from assms(3) have h: "count (\<lambda>n. district n = HARBOR) ?ns = 0"
    by (intro count_none) simp
  from assms(3) have p: "\<not> list_ex (\<lambda>n. district n = GOVERNMENT_PLAZA) ?ns"
    by (intro list_ex_none) simp
  have hub: "calculateCommercialHubAdjacency tile ?ns [] =
      (if riverEdges tile = [] then [] else [mkBonus COMMERCIAL_HUB Gold 2 ''River''])
       @ [mkBonus COMMERCIAL_HUB Gold 1 (Number_toString 3 @ '' District(s)'')]"
    by (simp add: calculateCommercialHubAdjacency_def Let_def h assms(2) push_def hasRiver_def)
  show ?thesis
    by (simp add: calculateDistrictAdjacency_def Let_def assms(1) hub p mkBonus_def
          EMPTY_YIELDS_def)
qed

theorem C2_commercial_hub_gold_witness:
  "district (hub_tile [0, 4]) = COMMERCIAL_HUB
   \<and> count hasDistrict (getNeighborTiles hub_grid (coord (hub_tile [0, 4]))) = 3
   \<and> map district (getNeighborTiles hub_grid (coord (hub_tile [0, 4])))
       = [CAMPUS, DISTRICT_NONE, DISTRICT_NONE, HOLY_SITE, CITY_CENTER, DISTRICT_NONE]
   \<and> gold (totalBonus (calculateDistrictAdjacency hub_grid (hub_tile [0, 4]))) = 3
   \<and> gold (totalBonus (calculateDistrictAdjacency hub_grid (hub_tile []))) = 1"
proof -
  have c: "\<And>es. coord (hub_tile es) = (1, 1)" "\<And>es. district (hub_tile es) = COMMERCIAL_HUB"
    "\<And>es. riverEdges (hub_tile es) = es"
    by (simp_all add: hub_tile_def)
  have 1: "count hasDistrict (getNeighborTiles hub_grid (1, 1)) = 3"
    by code_simp
  have 2: "\<forall>n\<in>set (getNeighborTiles hub_grid (1, 1)).
         district n \<noteq> HARBOR \<and> district n \<noteq> GOVERNMENT_PLAZA"
    by code_simp
  have 3: "map district (getNeighborTiles hub_grid (1, 1))
       = [CAMPUS, DISTRICT_NONE, DISTRICT_NONE, HOLY_SITE, CITY_CENTER, DISTRICT_NONE]"
    by code_simp
  have a: "gold (totalBonus (calculateDistrictAdjacency hub_grid (hub_tile [0, 4]))) = 3"
    using C2_commercial_hub_gold [of "hub_tile [0, 4]" hub_grid] 1 2 by (simp add: c)
  have b: "gold (totalBonus (calculateDistrictAdjacency hub_grid (hub_tile []))) = 1"
    using C2_commercial_hub_gold [of "hub_tile []" hub_grid] 1 2 by (simp add: c)
  from 1 3 a b show ?thesis by (simp add: c)
qed

section \<open>Properties of the store model\<close>

subsection \<open>Allocation leaves the objects that exist as they are\<close>

lemma deref_Set_append: "deref_Set h a = Some s \<Longrightarrow> deref_Set (h @ xs) a = Some s"
  by (auto simp add: deref_Set_def nth_append split: if_splits)

lemma deref_Tile_append: "deref_Tile h a = Some t \<Longrightarrow> deref_Tile (h @ xs) a = Some t"
  by (auto simp add: deref_Tile_def nth_append split: if_splits)

lemma view_Tile_append: "view_Tile h a = Some t \<Longrightarrow> view_Tile (h @ xs) a = Some t"
  by (auto simp add: view_Tile_def deref_Set_append deref_Tile_append split: option.splits)

lemma view_Tile_bound: "view_Tile h a = Some t \<Longrightarrow> a < length h"
  by (auto simp add: view_Tile_def deref_Tile_def split: option.splits if_splits)

lemma view_Tile_parts:
  "view_Tile h a = Some t \<Longrightarrow>
     \<exists>t0 es. deref_Tile h a = Some t0 \<and> deref_Set h (riverEdges t0) = Some es
       \<and> t = with_riverEdges t0 es \<and> riverEdges t0 < length h \<and> riverEdges t0 \<noteq> a"
  by (auto simp add: view_Tile_def deref_Tile_def deref_Set_def split: option.splits if_splits obj.splits)

subsection \<open>The temporary cell\<close>

lemma with_riverEdges_fields [simp]:
  "coord (with_riverEdges t es) = coord t" "terrain (with_riverEdges t es) = terrain t"
  "modifier (with_riverEdges t es) = modifier t" "feature (with_riverEdges t es) = feature t"
  "resource (with_riverEdges t es) = resource t" "district (with_riverEdges t es) = district t"
  "wonder (with_riverEdges t es) = wonder t"
  "naturalWonder (with_riverEdges t es) = naturalWonder t"
  "improvement (with_riverEdges t es) = improvement t"
  "riverEdges (with_riverEdges t es) = es"
  "ownerCityId (with_riverEdges t es) = ownerCityId t"
  "isCityCenter (with_riverEdges t es) = isCityCenter t"
  by (simp_all add: with_riverEdges_def)

lemma Tile_fromJSON_s_eq:
  "Tile_fromJSON_s h d =
     (Suc (length h),
      h @ [SetObj [], TileObj (with_riverEdges (Tile_fromJSON d) (length h + 2)),
           SetObj (Set_new (td_riverEdges d))])"
  by (simp add: Tile_fromJSON_s_def new_Tile_s_def Set_new_s_def alloc_def call_s_def
        deref_Tile_def Set_new_def nth_append Tile_fromJSON_def newTile_def new_Tile_def
        with_riverEdges_def list_update_append)

lemma view_Tile_fromJSON_s:
  "view_Tile (snd (Tile_fromJSON_s h d)) (fst (Tile_fromJSON_s h d)) = Some (Tile_fromJSON d)"
  by (simp add: Tile_fromJSON_s_eq view_Tile_def deref_Tile_def deref_Set_def nth_append
        with_riverEdges_def Tile_fromJSON_def newTile_def new_Tile_def)

subsection \<open>The grid seen through the store\<close>

lemma wf_world_view:
  assumes "wf_world w" "(k, a) \<in> set (w_tiles w)"
  shows "\<exists>t. view_Tile (objs w) a = Some t \<and> k = coordToKey (coord t) \<and> wf_Tile t"
  using assms by (auto simp add: wf_world_def list_all_iff split: option.splits)

lemma map_filter_cong_set:
  "(\<And>x. x \<in> set xs \<Longrightarrow> f x = g x) \<Longrightarrow> List.map_filter f xs = List.map_filter g xs"
  by (induction xs) (auto simp add: List.map_filter_simps split: option.splits)

lemma view_GameMap_extend:
  assumes "wf_world w"
  shows "view_GameMap (w\<lparr>objs := objs w @ xs\<rparr>) = view_GameMap w"
proof -
  have "List.map_filter (\<lambda>(k, a). map_option (Pair k) (view_Tile (objs w @ xs) a)) (w_tiles w)
      = List.map_filter (\<lambda>(k, a). map_option (Pair k) (view_Tile (objs w) a)) (w_tiles w)"
  proof (rule map_filter_cong_set)
    fix x assume x: "x \<in> set (w_tiles w)"
    obtain k a where ka: "x = (k, a)" by (cases x)
    from wf_world_view [OF assms] x ka obtain t where "view_Tile (objs w) a = Some t" by blast
    then show "(case x of (k, a) \<Rightarrow> map_option (Pair k) (view_Tile (objs w @ xs) a))
        = (case x of (k, a) \<Rightarrow> map_option (Pair k) (view_Tile (objs w) a))"
      by (simp add: ka view_Tile_append)
  qed
  then show ?thesis by (simp add: view_GameMap_def)
qed

lemma GameMap_toJSON_s_extend:
  assumes "wf_world w"
  shows "GameMap_toJSON_s (w\<lparr>objs := objs w @ xs\<rparr>) = GameMap_toJSON_s w"
proof -
  have "List.map_filter (Tile_toJSON_s (objs w @ xs)) (map snd (w_tiles w))
      = List.map_filter (Tile_toJSON_s (objs w)) (map snd (w_tiles w))"
  proof (rule map_filter_cong_set)
    fix a assume "a \<in> set (map snd (w_tiles w))"
    then obtain k where "(k, a) \<in> set (w_tiles w)" by auto
    from wf_world_view [OF assms this] obtain t where "view_Tile (objs w) a = Some t" by blast
    then show "Tile_toJSON_s (objs w @ xs) a = Tile_toJSON_s (objs w) a"
      by (simp add: Tile_toJSON_s_def view_Tile_append)
  qed
  then show ?thesis by (simp add: GameMap_toJSON_s_def)
qed

lemma map_of_map_filter_view:
  assumes "\<And>k a. (k, a) \<in> set al \<Longrightarrow> \<exists>t. v a = Some t"
  shows "map_of (List.map_filter (\<lambda>(k, a). map_option (Pair k) (v a)) al) key
    = (case map_of al key of None \<Rightarrow> None | Some a \<Rightarrow> v a)"
  using assms
proof (induction al)
  case Nil
  show ?case by (simp add: List.map_filter_simps)
next
  case (Cons x al)
  obtain k a where x: "x = (k, a)" by (cases x)
  from Cons.prems [of k a] x obtain t where t: "v a = Some t" by auto
  from Cons.prems have "\<And>k a. (k, a) \<in> set al \<Longrightarrow> \<exists>t. v a = Some t" by auto
  from Cons.IH [OF this] x t show ?case by (simp add: List.map_filter_simps)
qed

lemma getTile_view:
  assumes "wf_world w"
  shows "getTile (view_GameMap w) c
    = (case getTile_s w c of None \<Rightarrow> None | Some a \<Rightarrow> view_Tile (objs w) a)"
proof -
  have "\<And>k a. (k, a) \<in> set (w_tiles w) \<Longrightarrow> \<exists>t. view_Tile (objs w) a = Some t"
    using wf_world_view [OF assms] by blast
  from map_of_map_filter_view [of "w_tiles w" "view_Tile (objs w)", OF this]
  show ?thesis by (simp add: getTile_def getTile_s_def Map_get_def view_GameMap_def)
qed

text \<open>
  C9.  \<^verbatim>\<open>calculatePotentialAdjacency\<close> changes no object that existed before the call and
  does not write to the grid's \<^verbatim>\<open>Map\<close>: it allocates the temporary cell (and its Sets)
  behind the existing objects, so the store after the call starts with the store before
  it, and the grid's snapshot and every cell of the grid as the value model sees it are
  the same before and after.  The result refers to the temporary cell, which is none of
  the grid's cells; its bonus is the one that the value model computes on the grid.  A
  coordinate absent from the grid gives not-found and leaves the state as it is.
\<close>

theorem C9_potential_adjacency_no_side_effect:
  assumes "wf_world w"
  shows "GameMap_toJSON_s (snd (calculatePotentialAdjacency_s w c d)) = GameMap_toJSON_s w
    \<and> view_GameMap (snd (calculatePotentialAdjacency_s w c d)) = view_GameMap w
    \<and> w_tiles (snd (calculatePotentialAdjacency_s w c d)) = w_tiles w
    \<and> take (length (objs w)) (objs (snd (calculatePotentialAdjacency_s w c d))) = objs w
    \<and> map_option snd (fst (calculatePotentialAdjacency_s w c d))
        = calculatePotentialAdjacency (view_GameMap w) c d
    \<and> (\<forall>a r. fst (calculatePotentialAdjacency_s w c d) = Some (a, r) \<longrightarrow> length (objs w) \<le> a)
    \<and> (getTile_s w c = None \<longrightarrow> calculatePotentialAdjacency_s w c d = (None, w))"
proof (cases "getTile_s w c")
  case None
  with getTile_view [OF assms, of c] show ?thesis
    by (simp add: calculatePotentialAdjacency_s_def calculatePotentialAdjacency_def)
next
  case (Some a)
  then have "(coordToKey c, a) \<in> set (w_tiles w)"
    by (auto simp add: getTile_s_def Map_get_def dest: map_of_SomeD)
  from wf_world_view [OF assms this] obtain t where t: "view_Tile (objs w) a = Some t" by blast
  let ?d = "(Tile_toJSON t)\<lparr>td_district := d\<rparr>"
  let ?xs = "[SetObj [], TileObj (with_riverEdges (Tile_fromJSON ?d) (length (objs w) + 2)),
             SetObj (Set_new (td_riverEdges ?d))]"
  let ?w = "w\<lparr>objs := objs w @ ?xs\<rparr>"
  have v: "view_Tile (objs w @ ?xs) (Suc (length (objs w))) = Some (Tile_fromJSON ?d)"
    using view_Tile_fromJSON_s [of "objs w" ?d] by (simp add: Tile_fromJSON_s_eq)
  have r: "calculatePotentialAdjacency_s w c d
      = (Some (Suc (length (objs w)), calculateDistrictAdjacency (view_GameMap ?w) (Tile_fromJSON ?d)),
         ?w)"
    using v
    by (simp add: calculatePotentialAdjacency_s_def Some t Tile_toJSON_s_def Tile_fromJSON_s_eq
          Let_def)
  have g: "getTile (view_GameMap w) c = Some t"
    using getTile_view [OF assms, of c] Some t by simp
  show ?thesis
    by (simp add: r Some view_GameMap_extend [OF assms] GameMap_toJSON_s_extend [OF assms]
          calculatePotentialAdjacency_def g)
qed

theorem C9_potential_adjacency_no_side_effect_witness:
  "wf_world river_world
   \<and> GameMap_toJSON_s (snd (calculatePotentialAdjacency_s river_world (0, 0) COMMERCIAL_HUB))
       = GameMap_toJSON_s river_world
   \<and> take 4 (objs (snd (calculatePotentialAdjacency_s river_world (0, 0) COMMERCIAL_HUB)))
       = objs river_world
   \<and> getTile_s river_world (0, 1) = None
   \<and> calculatePotentialAdjacency_s river_world (0, 1) COMMERCIAL_HUB = (None, river_world)"
proof -
  have h: "wf_world river_world" by code_simp
  have l: "length (objs river_world) = 4" by (simp add: river_world_def)
  have n: "getTile_s river_world (0, 1) = None"
    by (simp add: getTile_s_def Map_get_def river_world_def)
  from C9_potential_adjacency_no_side_effect [OF h, of "(0, 0)" COMMERCIAL_HUB]
    C9_potential_adjacency_no_side_effect [OF h, of "(0, 1)" COMMERCIAL_HUB] h n
  show ?thesis by (simp add: l)
qed

subsection \<open>Setters in the store and in the value model\<close>

lemma with_riverEdges_update:
  "with_riverEdges (t\<lparr>terrain := a\<rparr>) es = (with_riverEdges t es)\<lparr>terrain := a\<rparr>"
  "with_riverEdges (t\<lparr>modifier := b\<rparr>) es = (with_riverEdges t es)\<lparr>modifier := b\<rparr>"
  "with_riverEdges (t\<lparr>feature := c\<rparr>) es = (with_riverEdges t es)\<lparr>feature := c\<rparr>"
  "with_riverEdges (t\<lparr>resource := d\<rparr>) es = (with_riverEdges t es)\<lparr>resource := d\<rparr>"
  "with_riverEdges (t\<lparr>district := e\<rparr>) es = (with_riverEdges t es)\<lparr>district := e\<rparr>"
  "with_riverEdges (t\<lparr>wonder := f\<rparr>) es = (with_riverEdges t es)\<lparr>wonder := f\<rparr>"
  "with_riverEdges (t\<lparr>naturalWonder := g\<rparr>) es = (with_riverEdges t es)\<lparr>naturalWonder := g\<rparr>"
  "with_riverEdges (t\<lparr>improvement := i\<rparr>) es = (with_riverEdges t es)\<lparr>improvement := i\<rparr>"
  "with_riverEdges (t\<lparr>ownerCityId := j\<rparr>) es = (with_riverEdges t es)\<lparr>ownerCityId := j\<rparr>"
  "with_riverEdges (t\<lparr>isCityCenter := k\<rparr>) es = (with_riverEdges t es)\<lparr>isCityCenter := k\<rparr>"
  by (simp_all add: with_riverEdges_def)

lemma with_riverEdges_riverEdges:
  "(with_riverEdges t es)\<lparr>riverEdges := es'\<rparr> = with_riverEdges t es'"
  by (simp add: with_riverEdges_def)

text \<open>A setter that does not touch the Set does the same to a cell whatever its Set is.\<close>

lemma setter_with_riverEdges:
  "setTerrain (with_riverEdges t es) a b
     = (fst (setTerrain t a b), with_riverEdges (snd (setTerrain t a b)) es)"
  "setFeature (with_riverEdges t es) c
     = (fst (setFeature t c), with_riverEdges (snd (setFeature t c)) es)"
  "setResource (with_riverEdges t es) d
     = (fst (setResource t d), with_riverEdges (snd (setResource t d)) es)"
  "setDistrict (with_riverEdges t es) e
     = (fst (setDistrict t e), with_riverEdges (snd (setDistrict t e)) es)"
  "setWonder (with_riverEdges t es) f
     = (fst (setWonder t f), with_riverEdges (snd (setWonder t f)) es)"
  "setNaturalWonder (with_riverEdges t es) g
     = (fst (setNaturalWonder t g), with_riverEdges (snd (setNaturalWonder t g)) es)"
  "setImprovement (with_riverEdges t es) i
     = (fst (setImprovement t i), with_riverEdges (snd (setImprovement t i)) es)"
  "setOwner (with_riverEdges t es) j k
     = (fst (setOwner t j k), with_riverEdges (snd (setOwner t j k)) es)"
  by (simp_all add: setter_defs Let_def with_riverEdges_update)

lemma riverEdges_setter:
  "riverEdges (snd (setTerrain t a b)) = riverEdges t"
  "riverEdges (snd (setFeature t c)) = riverEdges t"
  "riverEdges (snd (setResource t d)) = riverEdges t"
  "riverEdges (snd (setDistrict t e)) = riverEdges t"
  "riverEdges (snd (setWonder t f)) = riverEdges t"
  "riverEdges (snd (setNaturalWonder t g)) = riverEdges t"
  "riverEdges (snd (setImprovement t i)) = riverEdges t"
  "riverEdges (snd (setOwner t j k)) = riverEdges t"
  by (simp_all add: setter_defs Let_def)

lemma view_Tile_call_s:
  assumes "view_Tile h a = Some (with_riverEdges t0 es)" "deref_Tile h a = Some t0"
    and "f (with_riverEdges t0 es) = (fst (f' t0), with_riverEdges (snd (f' t0)) es)"
    and "riverEdges (snd (f' t0)) = riverEdges t0"
  shows "fst (call_s h a f') = fst (f (with_riverEdges t0 es))
    \<and> view_Tile (snd (call_s h a f')) a = Some (snd (f (with_riverEdges t0 es)))"
proof -
  from view_Tile_parts [OF assms(1)] assms(2) have
    p: "deref_Set h (riverEdges t0) = Some es" "riverEdges t0 < length h" "riverEdges t0 \<noteq> a"
    by (auto simp add: with_riverEdges_def)
  from assms(1) have a: "a < length h" by (rule view_Tile_bound)
  obtain e t' where f': "f' t0 = (e, t')" by (cases "f' t0")
  with assms(4) have r: "riverEdges t' = riverEdges t0" by simp
  have c: "call_s h a f' = (e, h[a := TileObj t'])"
    by (simp add: call_s_def assms(2) f')
  from a have dt: "deref_Tile (h[a := TileObj t']) a = Some t'"
    by (simp add: deref_Tile_def)
  from p have ds: "deref_Set (h[a := TileObj t']) (riverEdges t0) = Some es"
    by (simp add: deref_Set_def)
  show ?thesis
    by (simp add: c assms(3) f' view_Tile_def dt ds r)
qed

text \<open>
  The two models agree: a setter called on a cell object does to the cell, as the value
  model sees it, what the setter of the value model does.
\<close>

lemma apply_call_s_view:
  assumes "view_Tile h a = Some t"
  shows "fst (apply_call_s h a c) = fst (apply_call t c)
    \<and> view_Tile (snd (apply_call_s h a c)) a = Some (snd (apply_call t c))"
proof -
  from view_Tile_parts [OF assms] obtain t0 es where
    p: "deref_Tile h a = Some t0" "deref_Set h (riverEdges t0) = Some es"
       "t = with_riverEdges t0 es" "riverEdges t0 < length h" "riverEdges t0 \<noteq> a"
    by blast
  from assms have a: "a < length h" by (rule view_Tile_bound)
  note v = assms [unfolded p(3)]
  show ?thesis
  proof (cases c)
    case (AddRiverEdge edge)
    with p a show ?thesis
      by (simp add: addRiverEdge_s_def addRiverEdge_def Set_add_s_def view_Tile_def
            deref_Tile_def deref_Set_def with_riverEdges_riverEdges)
  next
    case (RemoveRiverEdge edge)
    with p a show ?thesis
      by (simp add: removeRiverEdge_s_def removeRiverEdge_def Set_delete_s_def view_Tile_def
            deref_Tile_def deref_Set_def with_riverEdges_riverEdges)
  qed (simp_all add: p(3) view_Tile_call_s [OF v p(1)] setter_with_riverEdges riverEdges_setter)
qed

lemma riverEdges_apply_call:
  "\<not> is_river_call c \<Longrightarrow> riverEdges (snd (apply_call t c)) = riverEdges t"
  by (cases c) (simp_all add: riverEdges_setter)

subsection \<open>The set that the getter returns\<close>

lemma set_fold_Set_add: "set (fold (\<lambda>x s. Set_add s x) xs s) = set s \<union> set xs"
  by (induction xs arbitrary: s) (auto simp add: Set_add_def)

lemma set_Set_new: "set (Set_new xs) = set xs"
  by (simp add: Set_new_def set_fold_Set_add)

lemma Tile_riverEdges_eq:
  "view_Tile h a = Some t \<Longrightarrow>
     Tile_riverEdges h a = (length h, h @ [SetObj (Set_new (riverEdges t))])"
  by (auto simp add: Tile_riverEdges_def Set_new_s_def alloc_def dest!: view_Tile_parts)

lemma Set_add_s_last:
  "Set_add_s (h @ [SetObj s]) (length h) x = h @ [SetObj (Set_add s x)]"
  by (simp add: Set_add_s_def deref_Set_def)

lemma Set_delete_s_last:
  "Set_delete_s (h @ [SetObj s]) (length h) x = h @ [SetObj (Set_delete s x)]"
  by (simp add: Set_delete_s_def deref_Set_def)

lemma deref_Set_last: "deref_Set (h @ [SetObj s]) (length h) = Some s"
  by (simp add: deref_Set_def)

text \<open>
  C10.  The \<^verbatim>\<open>riverEdges\<close> getter allocates a new Set, at an address that no object had
  before, with the members of the cell's Set, and changes no object that existed.  Adding
  to the returned Set, or deleting from it, changes the returned Set and leaves the cell
  as it was: the cell's fields and stored river edges, hence \<^verbatim>\<open>hasRiver\<close>, and its
  serialized form.  A setter other than \<^verbatim>\<open>addRiverEdge\<close> and \<^verbatim>\<open>removeRiverEdge\<close> leaves
  the cell's river edges as they were; every setter does to the stored cell what the value
  model says.
\<close>

theorem C10_riverEdges_getter_returns_copy:
  assumes "view_Tile h a = Some t"
  shows "fst (Tile_riverEdges h a) = length h
    \<and> take (length h) (snd (Tile_riverEdges h a)) = h
    \<and> map_option set (deref_Set (snd (Tile_riverEdges h a)) (fst (Tile_riverEdges h a)))
        = Some (set (riverEdges t))
    \<and> deref_Set (Set_add_s (snd (Tile_riverEdges h a)) (fst (Tile_riverEdges h a)) x)
          (fst (Tile_riverEdges h a))
        = Some (Set_add (Set_new (riverEdges t)) x)
    \<and> deref_Set (Set_delete_s (snd (Tile_riverEdges h a)) (fst (Tile_riverEdges h a)) x)
          (fst (Tile_riverEdges h a))
        = Some (Set_delete (Set_new (riverEdges t)) x)
    \<and> view_Tile (Set_add_s (snd (Tile_riverEdges h a)) (fst (Tile_riverEdges h a)) x) a = Some t
    \<and> view_Tile (Set_delete_s (snd (Tile_riverEdges h a)) (fst (Tile_riverEdges h a)) x) a
        = Some t
    \<and> hasRiver_s (Set_add_s (snd (Tile_riverEdges h a)) (fst (Tile_riverEdges h a)) x) a
        = hasRiver_s h a
    \<and> hasRiver_s (Set_delete_s (snd (Tile_riverEdges h a)) (fst (Tile_riverEdges h a)) x) a
        = hasRiver_s h a
    \<and> Tile_toJSON_s (Set_add_s (snd (Tile_riverEdges h a)) (fst (Tile_riverEdges h a)) x) a
        = Tile_toJSON_s h a
    \<and> Tile_toJSON_s (Set_delete_s (snd (Tile_riverEdges h a)) (fst (Tile_riverEdges h a)) x) a
        = Tile_toJSON_s h a
    \<and> fst (apply_call_s h a c) = fst (apply_call t c)
    \<and> view_Tile (snd (apply_call_s h a c)) a = Some (snd (apply_call t c))
    \<and> (\<not> is_river_call c \<longrightarrow>
          map_option riverEdges (view_Tile (snd (apply_call_s h a c)) a) = Some (riverEdges t))"
proof -
  note g = Tile_riverEdges_eq [OF assms]
  have va: "\<And>s. view_Tile (h @ [SetObj s]) a = Some t"
    using assms by (rule view_Tile_append)
  from apply_call_s_view [OF assms, of c] riverEdges_apply_call [of c t]
  show ?thesis
    by (simp add: g Set_add_s_last Set_delete_s_last deref_Set_last set_Set_new va assms
          hasRiver_s_def Tile_toJSON_s_def)
qed

theorem C10_riverEdges_getter_returns_copy_witness:
  "view_Tile (objs river_world) 1 = Some (new_Tile (0, 0) [2, 5])
   \<and> fst (Tile_riverEdges (objs river_world) 1) = 4
   \<and> deref_Set (Set_add_s (snd (Tile_riverEdges (objs river_world) 1))
                   (fst (Tile_riverEdges (objs river_world) 1)) 3)
         (fst (Tile_riverEdges (objs river_world) 1))
       = Some [2, 5, 3]
   \<and> view_Tile (Set_add_s (snd (Tile_riverEdges (objs river_world) 1))
                   (fst (Tile_riverEdges (objs river_world) 1)) 3) 1
       = Some (new_Tile (0, 0) [2, 5])
   \<and> map_option riverEdges
        (view_Tile (snd (apply_call_s (objs river_world) 1 (SetTerrain PLAINS HILLS))) 1)
       = Some [2, 5]"
proof -
  have h: "view_Tile (objs river_world) 1 = Some (new_Tile (0, 0) [2, 5])"
    by code_simp
  have l: "length (objs river_world) = 4" by (simp add: river_world_def)
  have s: "Set_add (Set_new [2, 5]) 3 = [2, 5, 3]" by code_simp
  have r: "riverEdges (new_Tile (0, 0) [2, 5 :: int]) = [2, 5]" by (simp add: new_Tile_def)
  note th = C10_riverEdges_getter_returns_copy [OF h, of 3 "SetTerrain PLAINS HILLS",
    unfolded l s r]
  from th have 1: "fst (Tile_riverEdges (objs river_world) 1) = 4" by (rule conjunct1)
  from th have 2: "deref_Set (Set_add_s (snd (Tile_riverEdges (objs river_world) 1))
                   (fst (Tile_riverEdges (objs river_world) 1)) 3)
         (fst (Tile_riverEdges (objs river_world) 1)) = Some [2, 5, 3]" by blast
  from th have 3: "view_Tile (Set_add_s (snd (Tile_riverEdges (objs river_world) 1))
                   (fst (Tile_riverEdges (objs river_world) 1)) 3) 1
       = Some (new_Tile (0, 0) [2, 5])" by blast
  from th have 4: "map_option riverEdges
        (view_Tile (snd (apply_call_s (objs river_world) 1 (SetTerrain PLAINS HILLS))) 1)
       = Some [2, 5]" by (simp add: riverEdges_setter r)
  from h 1 2 3 4 show ?thesis by blast
qed

end
